theory Spec2Isabelle
  imports Complex_Main "HOL-Library.Sublist" "HOL-Library.Word"
begin

section \<open>Strings\<close>

text \<open>
  Python strings are modelled as \<^typ>\<open>string\<close> (lists of 8-bit characters), so the
  development covers ASCII text: \<open>str.lower\<close> and \<open>str.upper\<close> change the letters
  \<open>A..Z\<close> and \<open>a..z\<close> and leave every other character alone. Every table key
  and model name of the scripts is ASCII; the check mark and the ballot box of some
  printed lines are written as the bytes of their UTF-8 encoding.
\<close>

definition lower_char :: "char \<Rightarrow> char" where
  "lower_char c =
     (let n = (of_char c :: nat) in if 65 \<le> n \<and> n \<le> 90 then char_of (n + 32) else c)"

definition lower :: "string \<Rightarrow> string" where
  "lower s = map lower_char s"

definition upper_char :: "char \<Rightarrow> char" where
  "upper_char c =
     (let n = (of_char c :: nat) in if 97 \<le> n \<and> n \<le> 122 then char_of (n - 32) else c)"

definition upper :: "string \<Rightarrow> string" where
  "upper s = map upper_char s"

text \<open>Python's \<open>sub in s\<close> on strings: \<open>sub\<close> occurs in \<open>s\<close> as a contiguous run.\<close>

fun str_contains :: "string \<Rightarrow> string \<Rightarrow> bool" where
  "str_contains sub [] = (sub = [])"
| "str_contains sub (c # cs) = (prefix sub (c # cs) \<or> str_contains sub cs)"

section \<open>scripts/setup_pbr_textures.py: the tables\<close>

text \<open>
  A Python dict literal with pairwise distinct keys iterates in the order of its
  declaration, so each table is an association list in source order.
\<close>

definition MESH_MATERIAL_MAP :: "(string \<times> string) list" where
  "MESH_MATERIAL_MAP =
    [(''saree'', ''saree''),
     (''Saree'', ''saree''),
     (''cloth'', ''saree''),
     (''Cloth'', ''saree''),
     (''garment'', ''saree''),
     (''hair'', ''hair''),
     (''Hair'', ''hair''),
     (''head_hair'', ''hair''),
     (''mother_hair'', ''hair''),
     (''mother_skin'', ''mother_skin''),
     (''Mother_Skin'', ''mother_skin''),
     (''skin'', ''mother_skin''),
     (''Skin'', ''mother_skin''),
     (''body'', ''mother_skin''),
     (''face'', ''mother_skin''),
     (''baby_skin'', ''baby_skin''),
     (''Baby_Skin'', ''baby_skin''),
     (''baby_body'', ''baby_skin''),
     (''baby_hair'', ''baby_hair''),
     (''Baby_Hair'', ''baby_hair''),
     (''baby_head'', ''baby_hair''),
     (''base'', ''base''),
     (''Base'', ''base''),
     (''pedestal'', ''base''),
     (''Pedestal'', ''base''),
     (''stand'', ''base'')]"

text \<open>
  The inner loop of \<open>main\<close> (lines 283-288):
  \<^verbatim>\<open>
  mat_type = None
  for mesh_name, mtype in MESH_MATERIAL_MAP.items():
      if mesh_name.lower() in obj.name.lower():
          mat_type = mtype
          break
  \<close>
  The table is a parameter of the recursion; \<open>match_mesh\<close> runs it on the script's table.
\<close>

fun find_mat_type :: "(string \<times> string) list \<Rightarrow> string \<Rightarrow> string option" where
  "find_mat_type [] name = None"
| "find_mat_type ((mesh_name, mtype) # rest) name =
     (if str_contains (lower mesh_name) (lower name) then Some mtype
      else find_mat_type rest name)"

definition match_mesh :: "string \<Rightarrow> string option" where
  "match_mesh name = find_mat_type MESH_MATERIAL_MAP name"

section \<open>scripts/setup_pbr_textures.py: configuration\<close>

definition INPUT_GLB :: string where
  "INPUT_GLB = ''assets/motherandbaby3dmodel.glb''"

definition OUTPUT_GLB :: string where
  "OUTPUT_GLB = ''assets/motherandbaby3dmodel_pbr.glb''"

definition TEXTURE_DIR :: string where
  "TEXTURE_DIR = ''textures_pbr''"

text \<open>
  The float literals of the tables are only passed on, never computed with; they are
  modelled as the decimal numbers the source writes.
\<close>

type_synonym rgb = "real \<times> real \<times> real"

definition COLORS :: "(string \<times> rgb) list" where
  "COLORS =
    [(''saree'', (0.784, 0.2, 0.227)),
     (''hair'', (0.051, 0.051, 0.051)),
     (''mother_skin'', (0.902, 0.702, 0.541)),
     (''baby_skin'', (0.941, 0.784, 0.639)),
     (''baby_hair'', (0.1, 0.1, 0.1)),
     (''base'', (0.965, 0.843, 0.690))]"

definition ROUGHNESS :: "(string \<times> real) list" where
  "ROUGHNESS =
    [(''saree'', 0.6),
     (''hair'', 0.25),
     (''mother_skin'', 0.45),
     (''baby_skin'', 0.35),
     (''baby_hair'', 0.5),
     (''base'', 0.7)]"

definition METALLIC :: "(string \<times> real) list" where
  "METALLIC =
    [(''saree'', 0.0),
     (''hair'', 0.1),
     (''mother_skin'', 0.0),
     (''baby_skin'', 0.0),
     (''baby_hair'', 0.05),
     (''base'', 0.0)]"

section \<open>Images and materials\<close>

text \<open>
  An image is its name, its size and how its pixels were filled. The pixel arrays
  themselves, with their random noise, are not modelled: \<open>image_fill\<close> records which of
  the three generators filled the image and with which parameters.
\<close>

datatype image_fill =
    SolidColor rgb
  | NormalNoise real
  | RoughnessNoise real real

record image =
  img_name :: string
  img_width :: nat
  img_height :: nat
  img_fill :: image_fill

text \<open>
  A material with its node tree: the nodes in creation order, and the links as (index of
  the source node, output socket, index of the target node, input socket).
\<close>

datatype node =
    BsdfPrincipled
  | OutputMaterial
  | TexImage image string
  | NormalMap real

type_synonym link = "nat \<times> string \<times> nat \<times> string"

record material =
  mat_name :: string
  use_nodes :: bool
  blend_method :: string
  base_color_default :: "real \<times> real \<times> real \<times> real"
  roughness_default :: real
  metallic_default :: real
  nodes :: "node list"
  links :: "link list"

section \<open>The scene\<close>

text \<open>
  Material slots belong to the datablock \<open>obj.data\<close>, which several objects may
  share; the type of an object is the kind of its datablock, and an object without data
  is an empty. The store maps the address of a datablock to its contents.
\<close>

record 'm datablock =
  kind :: string
  data_materials :: "'m list"

type_synonym 'm store = "nat \<Rightarrow> 'm datablock"

record object =
  obj_name :: string
  obj_data :: "nat option"

definition obj_type :: "'m store \<Rightarrow> object \<Rightarrow> string" where
  "obj_type st obj = (case obj_data obj of None \<Rightarrow> ''EMPTY'' | Some d \<Rightarrow> kind (st d))"

text \<open>The material slots an object shows: those of its datablock.\<close>

definition slots :: "'m store \<Rightarrow> object \<Rightarrow> 'm list" where
  "slots st obj = (case obj_data obj of None \<Rightarrow> [] | Some d \<Rightarrow> data_materials (st d))"

section \<open>Effects\<close>

text \<open>
  The calls that leave the script: Blender operators, the file system and the script's
  own helper functions, each with the arguments that vary; the keyword arguments the
  source fixes (\<open>action='SELECT'\<close>, \<open>use_global=False\<close>, \<open>import_materials=False\<close>, the
  export options) are part of the call's name. A helper that creates an image or a
  material is one call: what it does inside Blender is not unfolded. Any call may raise.
\<close>

datatype call =
    OpSelectAll
  | OpDelete
  | OpImportGltf string
  | MakeDirs string
  | CreateSimpleTexture nat nat rgb string
  | CreateNormalMap nat nat string real
  | CreateRoughnessTexture nat nat string real real
  | CreatePbrMaterial string
  | OpExportGltf string

datatype event =
    Printed string
  | Called call
  | SlotsCleared nat
  | SlotAppended nat string
  | TracebackPrinted

text \<open>
  An exception is a \<open>KeyError\<close> of a failed subscript or the error a call raised, with
  its message; both are caught by \<open>except Exception\<close>. \<open>str_exn\<close> is \<open>str(e)\<close>, as the
  handler prints it.
\<close>

datatype exn = KeyError string | CallError string


text \<open>
  What the script cannot know: whether a path exists, how a relative path resolves,
  which call raises (given everything that happened before it), and the scene Blender
  holds once the import has run.
\<close>

record env =
  path_exists :: "string \<Rightarrow> bool"
  abspath :: "string \<Rightarrow> string"
  raises :: "event list \<Rightarrow> call \<Rightarrow> string option"
  imported_objects :: "object list"
  imported_store :: "material store"

text \<open>
  The state a run threads: the events so far, and the datablocks of the scene. An action
  returns a value or raises, and leaves a new state; \<open>bind\<close> sequences two actions and
  passes an exception on, \<open>print\<close> is taken not to raise.
\<close>

record world =
  trace :: "event list"
  scene :: "material store"

type_synonym 'a action = "world \<Rightarrow> (exn + 'a) \<times> world"

definition ret :: "'a \<Rightarrow> 'a action" where
  "ret x w = (Inr x, w)"

definition raise :: "exn \<Rightarrow> 'a action" where
  "raise e w = (Inl e, w)"

definition bind :: "'a action \<Rightarrow> ('a \<Rightarrow> 'b action) \<Rightarrow> 'b action" where
  "bind m f w = (case m w of (Inl e, w') \<Rightarrow> (Inl e, w') | (Inr x, w') \<Rightarrow> f x w')"

fun seq :: "unit action list \<Rightarrow> unit action" where
  "seq [] = ret ()"
| "seq (a # as) = bind a (\<lambda>_. seq as)"

definition print :: "string \<Rightarrow> unit action" where
  "print s w = (Inr (), w\<lparr>trace := trace w @ [Printed s]\<rparr>)"

definition call :: "env \<Rightarrow> call \<Rightarrow> unit action" where
  "call env c w =
     (case raises env (trace w) c of
        Some msg \<Rightarrow> (Inl (CallError msg), w\<lparr>trace := trace w @ [Called c]\<rparr>)
      | None \<Rightarrow> (Inr (), w\<lparr>trace := trace w @ [Called c]\<rparr>))"

text \<open>A subscript \<open>table[key]\<close> on a dict.\<close>

definition getitem :: "(string \<rightharpoonup> 'v) \<Rightarrow> string \<Rightarrow> 'v action" where
  "getitem table key = (case table key of None \<Rightarrow> raise (KeyError key) | Some v \<Rightarrow> ret v)"

section \<open>The helper functions\<close>

definition create_simple_texture ::
    "env \<Rightarrow> nat \<Rightarrow> nat \<Rightarrow> rgb \<Rightarrow> string \<Rightarrow> image action" where
  "create_simple_texture env width height color_rgb name =
     bind (call env (CreateSimpleTexture width height color_rgb name)) (\<lambda>_.
     ret \<lparr>img_name = name, img_width = width, img_height = height,
          img_fill = SolidColor color_rgb\<rparr>)"

definition create_normal_map ::
    "env \<Rightarrow> nat \<Rightarrow> nat \<Rightarrow> string \<Rightarrow> real \<Rightarrow> image action" where
  "create_normal_map env width height name strength =
     bind (call env (CreateNormalMap width height name strength)) (\<lambda>_.
     ret \<lparr>img_name = name, img_width = width, img_height = height,
          img_fill = NormalNoise strength\<rparr>)"

definition create_roughness_texture ::
    "env \<Rightarrow> nat \<Rightarrow> nat \<Rightarrow> string \<Rightarrow> real \<Rightarrow> real \<Rightarrow> image action" where
  "create_roughness_texture env width height name base_roughness variation =
     bind (call env (CreateRoughnessTexture width height name base_roughness variation)) (\<lambda>_.
     ret \<lparr>img_name = name, img_width = width, img_height = height,
          img_fill = RoughnessNoise base_roughness variation\<rparr>)"

text \<open>
  The node tree \<open>create_pbr_material\<close> builds (lines 163-210). An image of
  \<open>textures_dict\<close> is truthy, so \<open>textures_dict.get(k)\<close> holds exactly when the key
  is present.
\<close>

definition pbr_material ::
    "string \<Rightarrow> rgb \<Rightarrow> real \<Rightarrow> real \<Rightarrow> (string \<rightharpoonup> image) \<Rightarrow> material" where
  "pbr_material material_name base_color roughness metallic textures_dict =
     (let ns = [];
          ls = [];
          principled = length ns;
          ns = ns @ [BsdfPrincipled];
          output = length ns;
          ns = ns @ [OutputMaterial];
          ls = ls @ [(principled, ''BSDF'', output, ''Surface'')];
          (ns, ls) =
            (case textures_dict ''basecolor'' of
               None \<Rightarrow> (ns, ls)
             | Some img \<Rightarrow>
                 (let img_node_bc = length ns in
                  (ns @ [TexImage img ''sRGB''],
                   ls @ [(img_node_bc, ''Color'', principled, ''Base Color'')])));
          (ns, ls) =
            (case textures_dict ''normal'' of
               None \<Rightarrow> (ns, ls)
             | Some img \<Rightarrow>
                 (let img_node_n = length ns;
                      normal_map = length ns + 1 in
                  (ns @ [TexImage img ''Non-Color'', NormalMap 0.8],
                   ls @ [(img_node_n, ''Color'', normal_map, ''Color''),
                         (normal_map, ''Normal'', principled, ''Normal'')])));
          (ns, ls) =
            (case textures_dict ''roughness'' of
               None \<Rightarrow> (ns, ls)
             | Some img \<Rightarrow>
                 (let img_node_r = length ns in
                  (ns @ [TexImage img ''Non-Color''],
                   ls @ [(img_node_r, ''Color'', principled, ''Roughness'')])))
      in \<lparr>mat_name = material_name, use_nodes = True, blend_method = ''BLEND'',
          base_color_default = (fst base_color, fst (snd base_color), snd (snd base_color), 1.0),
          roughness_default = roughness, metallic_default = metallic,
          nodes = ns, links = ls\<rparr>)"

definition create_pbr_material ::
    "env \<Rightarrow> string \<Rightarrow> rgb \<Rightarrow> real \<Rightarrow> real \<Rightarrow> (string \<rightharpoonup> image) \<Rightarrow> material action" where
  "create_pbr_material env material_name base_color roughness metallic textures_dict =
     bind (call env (CreatePbrMaterial material_name)) (\<lambda>_.
     ret (pbr_material material_name base_color roughness metallic textures_dict))"

section \<open>The steps of main\<close>

text \<open>The loop of lines 239-253 over \<open>COLORS.keys()\<close>, filling the dict \<open>textures\<close>.\<close>

fun generate_textures ::
    "env \<Rightarrow> string list \<Rightarrow> (string \<rightharpoonup> image) \<Rightarrow> (string \<rightharpoonup> image) action" where
  "generate_textures env [] textures = ret textures"
| "generate_textures env (mat_type # rest) textures =
     bind (print (''      Generating '' @ mat_type @ '' textures...'')) (\<lambda>_.
     bind (getitem (map_of COLORS) mat_type) (\<lambda>color.
     bind (create_simple_texture env 2048 2048 color (mat_type @ ''_basecolor'')) (\<lambda>bc_img.
     bind (create_normal_map env 2048 2048 (mat_type @ ''_normal'') 0.3) (\<lambda>n_img.
     bind (getitem (map_of ROUGHNESS) mat_type) (\<lambda>rough.
     bind (create_roughness_texture env 2048 2048 (mat_type @ ''_roughness'') rough 0.1)
       (\<lambda>r_img.
     generate_textures env rest
       (textures(mat_type @ ''_basecolor'' \<mapsto> bc_img,
                 mat_type @ ''_normal'' \<mapsto> n_img,
                 mat_type @ ''_roughness'' \<mapsto> r_img))))))))"

text \<open>The loop of lines 258-274, filling the dict \<open>materials\<close>.\<close>

fun create_materials ::
    "env \<Rightarrow> string list \<Rightarrow> (string \<rightharpoonup> image) \<Rightarrow> (string \<rightharpoonup> material)
       \<Rightarrow> (string \<rightharpoonup> material) action" where
  "create_materials env [] textures materials = ret materials"
| "create_materials env (mat_type # rest) textures materials =
     bind (print (''      Creating material: '' @ mat_type)) (\<lambda>_.
     bind (getitem textures (mat_type @ ''_basecolor'')) (\<lambda>bc.
     bind (getitem textures (mat_type @ ''_normal'')) (\<lambda>n.
     bind (getitem textures (mat_type @ ''_roughness'')) (\<lambda>r.
     bind (getitem (map_of COLORS) mat_type) (\<lambda>color.
     bind (getitem (map_of ROUGHNESS) mat_type) (\<lambda>rough.
     bind (getitem (map_of METALLIC) mat_type) (\<lambda>metal.
     bind (create_pbr_material env mat_type color rough metal
             [''basecolor'' \<mapsto> bc, ''normal'' \<mapsto> n, ''roughness'' \<mapsto> r]) (\<lambda>mat.
     create_materials env rest textures (materials(mat_type \<mapsto> mat))))))))))"

text \<open>
  The loop of lines 278-294 over \<open>bpy.data.objects\<close>. It threads the store of
  datablocks and the events of the loop: the line printed at a match, and the two
  updates of a datablock's slots. \<open>mat_type\<close> is truthy when it is a non-empty string.
\<close>

fun assign_materials ::
    "(string \<rightharpoonup> 'm) \<Rightarrow> object list \<Rightarrow> 'm store \<times> event list \<Rightarrow> 'm store \<times> event list" where
  "assign_materials materials [] (st, out) = (st, out)"
| "assign_materials materials (obj # rest) (st, out) =
     (if obj_type st obj \<noteq> ''MESH'' then assign_materials materials rest (st, out)
      else
        (case match_mesh (obj_name obj) of
           None \<Rightarrow> assign_materials materials rest (st, out)
         | Some mat_type \<Rightarrow>
             (let out = out @ [Printed (''      '' @ obj_name obj @ '' -> '' @ mat_type)] in
              if mat_type \<noteq> [] \<and> materials mat_type \<noteq> None then
                (case (obj_data obj, materials mat_type) of
                   (Some d, Some mat) \<Rightarrow>
                     (let st = st(d := (st d)\<lparr>data_materials := []\<rparr>);
                          st = st(d := (st d)\<lparr>data_materials := data_materials (st d) @ [mat]\<rparr>)
                      in assign_materials materials rest
                           (st, out @ [SlotsCleared d, SlotAppended d mat_type]))
                 | _ \<Rightarrow> assign_materials materials rest (st, out))
              else assign_materials materials rest (st, out))))"

definition check_mark :: string where
  "check_mark = [CHR 0xE2, CHR 0x9C, CHR 0x93]"

definition ballot_box :: string where
  "ballot_box = [CHR 0xE2, CHR 0x98, CHR 0x90]"

text \<open>
  \<open>main\<close> (lines 217-333). It returns \<open>None\<close> from the early return and the export path
  otherwise. A printed line is recorded without the newline \<open>print\<close> adds.
\<close>

definition main :: "env \<Rightarrow> string option action" where
  "main env =
     bind (seq
       [print (''\<newline>'' @ replicate 80 CHR ''=''),
        print ''PBR MATERIAL SETUP FOR MOTHER & BABY 3D MODEL'',
        print (replicate 80 CHR ''='' @ ''\<newline>''),
        print ''[1/5] Importing GLB model...'',
        call env OpSelectAll,
        call env OpDelete]) (\<lambda>_.
     if \<not> path_exists env INPUT_GLB then
       bind (print (''ERROR: Input file not found: '' @ INPUT_GLB)) (\<lambda>_. ret None)
     else
       bind (seq
         [call env (OpImportGltf INPUT_GLB),
          (\<lambda>w. (Inr (), w\<lparr>scene := imported_store env\<rparr>)),
          print (''      Imported: '' @ INPUT_GLB),
          print ''\<newline>[2/5] Generating textures...'',
          call env (MakeDirs TEXTURE_DIR)]) (\<lambda>_.
       bind (generate_textures env (map fst COLORS) Map.empty) (\<lambda>textures.
       bind (print ''\<newline>[3/5] Creating and assigning PBR materials...'') (\<lambda>_.
       bind (create_materials env (map fst COLORS) textures Map.empty) (\<lambda>materials.
       bind (print ''\<newline>[4/5] Assigning materials to mesh objects...'') (\<lambda>_.
       bind (\<lambda>w. (case assign_materials materials (imported_objects env) (scene w, []) of
                    (st, out) \<Rightarrow> (Inr (), w\<lparr>trace := trace w @ out, scene := st\<rparr>))) (\<lambda>_.
       bind (seq
         [print ''\<newline>[5/5] Exporting GLB with embedded textures...'',
          call env OpSelectAll]) (\<lambda>_.
       let export_path = abspath env OUTPUT_GLB in
       bind (seq
         [call env (OpExportGltf export_path),
          print (''\<newline>'' @ check_mark @ '' Export complete!''),
          print (''  Output: '' @ export_path),
          print ''  All textures embedded in GLB.\<newline>'',
          print (replicate 80 CHR ''=''),
          print ''VERIFICATION CHECKLIST (open in GLB viewer or engine):'',
          print (replicate 80 CHR ''=''),
          print (ballot_box @ '' Saree appears deep warm red (#C8333A)''),
          print (ballot_box @ '' Hair appears near-black (#0d0d0d) with subtle shine''),
          print (ballot_box @ '' Mother skin appears warm medium tone (#E6B38A)''),
          print (ballot_box @ '' Baby skin appears lighter warm (#F0C8A3)''),
          print (ballot_box @ '' Baby hair appears dark with texture''),
          print (ballot_box @ '' Base/pedestal appears light warm (#F6D7B0)''),
          print (ballot_box @ '' Normal maps show subtle surface detail (not too intense)''),
          print (ballot_box @ '' No external image references (all embedded)''),
          print (ballot_box
                 @ '' Model renders correctly in three.js / Babylon.js / Cesium\<newline>'')])
         (\<lambda>_. ret (Some export_path))))))))))"


section \<open>Sample scenes and environments\<close>

text \<open>
  Datablock 1 is a light; every other datablock is a mesh, and each starts with the
  given material slots. In \<open>sample_materials\<close> a material is named by a string, and
  each material type has a material of its own.
\<close>

definition sample_store :: "'m list \<Rightarrow> 'm store" where
  "sample_store old d = \<lparr>kind = (if d = 1 then ''LIGHT'' else ''MESH''), data_materials = old\<rparr>"

definition sample_materials :: "string \<rightharpoonup> string" where
  "sample_materials = map_of (map (\<lambda>(mat_type, color). (mat_type, ''PBR_'' @ mat_type)) COLORS)"

text \<open>
  \<open>bpy.data.objects\<close> iterates in the order of the names. The loop is modelled for any
  order of the objects; the sample scenes list theirs by name, under \<open>str_less\<close>, with
  or without regard to case.
\<close>

fun str_less :: "string \<Rightarrow> string \<Rightarrow> bool" where
  "str_less [] [] = False"
| "str_less [] (y # ys) = True"
| "str_less (x # xs) [] = False"
| "str_less (x # xs) (y # ys) =
     ((of_char x :: nat) < of_char y \<or> (x = y \<and> str_less xs ys))"

text \<open>Three objects that share the mesh datablock 0.\<close>

definition shared_objects :: "object list" where
  "shared_objects =
     [\<lparr>obj_name = ''A_Skin_Face'', obj_data = Some 0\<rparr>,
      \<lparr>obj_name = ''B_Hair_Back'', obj_data = Some 0\<rparr>,
      \<lparr>obj_name = ''C_Cube'', obj_data = Some 0\<rparr>]"

text \<open>Three objects with datablocks of their own.\<close>

definition separate_objects :: "object list" where
  "separate_objects =
     [\<lparr>obj_name = ''A_Skin_Face'', obj_data = Some 2\<rparr>,
      \<lparr>obj_name = ''B_Sun'', obj_data = Some 1\<rparr>,
      \<lparr>obj_name = ''C_Cube'', obj_data = Some 3\<rparr>]"

text \<open>
  Three environments: one where the input file exists and no call raises, one where the
  input file is missing, and one where the import raises.
\<close>

definition sample_env :: env where
  "sample_env =
     \<lparr>path_exists = (\<lambda>p. True), abspath = (\<lambda>p. ''/work/'' @ p),
      raises = (\<lambda>tr c. None),
      imported_objects = separate_objects, imported_store = sample_store []\<rparr>"



definition empty_world :: world where
  "empty_world = \<lparr>trace = [], scene = sample_store []\<rparr>"

section \<open>firmware/simple_gen.py and firmware/generate_tflite_models.py\<close>

type_synonym byte = "8 word"

text \<open>A bytes literal \<open>b'...'\<close> of ASCII characters.\<close>

definition ascii_bytes :: "string \<Rightarrow> byte list" where
  "ascii_bytes s = map of_char s"

text \<open>
  \<open>generate_minimal_tflite_stub(input_size, output_size)\<close> of generate_tflite_models.py
  (lines 38-55) and the three module-level calls (lines 61-63).
\<close>

definition generate_minimal_tflite_stub :: "int \<Rightarrow> int \<Rightarrow> byte list" where
  "generate_minimal_tflite_stub input_size output_size =
     (let header = ascii_bytes ''TFL3'';
          model_data = [];
          model_data = model_data @ header;
          model_data = model_data @ replicate 1000 0
      in model_data)"

definition arrhythmia_model :: "byte list" where
  "arrhythmia_model = generate_minimal_tflite_stub 5 5"

definition anemia_model :: "byte list" where
  "anemia_model = generate_minimal_tflite_stub 5 4"

definition preeclampsia_model :: "byte list" where
  "preeclampsia_model = generate_minimal_tflite_stub 5 4"

text \<open>
  The buffer that \<open>generate_c_header(model_name, description)\<close> of simple_gen.py builds
  in its local \<open>model_data\<close> (lines 16-18), as a function of the call's arguments.
\<close>

definition header_model_data :: "string \<Rightarrow> string \<Rightarrow> byte list" where
  "header_model_data model_name description =
     (let model_data = [];
          model_data = model_data @ ascii_bytes ''TFL3'';
          model_data = model_data @ replicate 1020 0
      in model_data)"

text \<open>The format specs \<open>{byte:02x}\<close> (a byte is below 256) and \<open>{len(model_data)}\<close>.\<close>

definition digit_char :: "nat \<Rightarrow> char" where
  "digit_char d = ''0123456789abcdef'' ! d"

definition fmt_02x :: "byte \<Rightarrow> string" where
  "fmt_02x b = [digit_char (unat b div 16), digit_char (unat b mod 16)]"

fun str_nat :: "nat \<Rightarrow> string" where
  "str_nat n =
     (if n < 10 then [digit_char n] else str_nat (n div 10) @ [digit_char (n mod 10)])"

declare str_nat.simps [simp del]

text \<open>
  The loop of lines 29-36 over \<open>enumerate(model_data)\<close>; \<open>f\<close> is the text written to
  the file so far, \<open>i\<close> the index of the next byte and \<open>n\<close> is \<open>len(model_data)\<close>.
\<close>

fun write_bytes :: "string \<Rightarrow> nat \<Rightarrow> nat \<Rightarrow> byte list \<Rightarrow> string" where
  "write_bytes f i n [] = f"
| "write_bytes f i n (byte # rest) =
     (let f = f @ ''0x'' @ fmt_02x byte;
          f = (if int i < int n - 1
               then (let f = f @ '','' in
                     if (i + 1) mod 16 = 0 then f @ ''\<newline>  '' else f @ '' '')
               else f)
      in write_bytes f (i + 1) n rest)"

text \<open>
  What one call of \<open>generate_c_header\<close> does: the file it opens for writing (which
  starts empty) and the text written to it, the line it prints, and the value it returns.
  The check mark of the printed line is the three bytes of its UTF-8 encoding.
\<close>

record header_result =
  header_path :: string
  file_text :: string
  printed :: string
  returned :: nat

definition generate_c_header :: "string \<Rightarrow> string \<Rightarrow> header_result" where
  "generate_c_header model_name description =
     (let header_path = ''models_h/'' @ model_name @ ''.h'';
          model_data = header_model_data model_name description;
          f = [];
          guard = upper model_name @ ''_H'';
          f = f @ ''#ifndef '' @ guard @ ''\<newline>'';
          f = f @ ''#define '' @ guard @ ''\<newline>\<newline>'';
          f = f @ ''// Model: '' @ description @ ''\<newline>'';
          f = f @ ''// NOTE: Placeholder - firmware uses rule-based AI\<newline>\<newline>'';
          f = f @ ''const unsigned char '';
          f = f @ model_name @ ''_tflite[] '';
          f = f @ ''__attribute__((aligned(16))) = {\<newline>  '';
          f = write_bytes f 0 (length model_data) model_data;
          f = f @ ''\<newline>};\<newline>\<newline>'';
          f = f @ ''const unsigned int '' @ model_name @ ''_tflite_len = ''
                @ str_nat (length model_data) @ '';\<newline>\<newline>'';
          f = f @ ''#endif // '' @ guard @ ''\<newline>''
      in \<lparr>header_path = header_path, file_text = f,
          printed = [CHR 0xE2, CHR 0x9C, CHR 0x93] @ '' '' @ model_name @ ''.h generated'',
          returned = length model_data\<rparr>)"

text \<open>The three calls of the script (lines 43-47), in order.\<close>

definition simple_gen_headers :: "header_result list" where
  "simple_gen_headers =
     [generate_c_header ''arrhythmia_risk_model'' ''Arrhythmia Detection'',
      generate_c_header ''anemia_risk_model'' ''Anemia Risk Assessment'',
      generate_c_header ''preeclampsia_risk_model'' ''Preeclampsia Detection'']"

section \<open>Reading an array initializer back\<close>

text \<open>
  To count and read the byte literals of an emitted array, the text between the braces
  is split at its commas, each item is stripped of surrounding blanks and newlines and
  must be \<open>0x\<close> followed by two hexadecimal digits. This is the reader's side of the
  header, not code of the scripts.
\<close>

definition is_ws :: "char \<Rightarrow> bool" where
  "is_ws c = (c = CHR '' '' \<or> c = CHR ''\<newline>'')"

definition trim :: "string \<Rightarrow> string" where
  "trim s = rev (dropWhile is_ws (rev (dropWhile is_ws s)))"

fun split_on :: "char \<Rightarrow> string \<Rightarrow> string list" where
  "split_on d [] = [[]]"
| "split_on d (c # cs) =
     (if c = d then [] # split_on d cs
      else (case split_on d cs of [] \<Rightarrow> [[c]] | w # ws \<Rightarrow> (c # w) # ws))"

definition hexval :: "char \<Rightarrow> nat option" where
  "hexval c =
     (let n = (of_char c :: nat) in
      if 48 \<le> n \<and> n \<le> 57 then Some (n - 48)
      else if 97 \<le> n \<and> n \<le> 102 then Some (n - 87)
      else if 65 \<le> n \<and> n \<le> 70 then Some (n - 55)
      else None)"

definition read_hex_byte :: "string \<Rightarrow> byte option" where
  "read_hex_byte s =
     (case s of
        [z, x, h, l] \<Rightarrow>
          (if z = CHR ''0'' \<and> x = CHR ''x'' then
             (case (hexval h, hexval l) of
                (Some a, Some b) \<Rightarrow> Some (of_nat (16 * a + b))
              | _ \<Rightarrow> None)
           else None)
      | _ \<Rightarrow> None)"

definition read_initializer :: "string \<Rightarrow> byte list option" where
  "read_initializer body = those (map (read_hex_byte \<circ> trim) (split_on CHR '','' body))"

section \<open>Reading a run\<close>

text \<open>
  Notions used to state what a run of the Blender script does: the calls of a trace, the
  events each iteration of the two creation loops leaves when nothing raises, the events
  before and after the loops, the objects whose iteration writes a datablock, and the
  properties that an action which raises the error of a call stops right at that call,
  and that an action raises no \<open>KeyError\<close>.
\<close>

definition calls_of :: "event list \<Rightarrow> call list" where
  "calls_of evs = concat (map (\<lambda>ev. case ev of Called c \<Rightarrow> [c] | _ \<Rightarrow> []) evs)"

definition texture_events :: "string \<Rightarrow> event list" where
  "texture_events mat_type =
     [Printed (''      Generating '' @ mat_type @ '' textures...''),
      Called (CreateSimpleTexture 2048 2048 (the (map_of COLORS mat_type))
                (mat_type @ ''_basecolor'')),
      Called (CreateNormalMap 2048 2048 (mat_type @ ''_normal'') 0.3),
      Called (CreateRoughnessTexture 2048 2048 (mat_type @ ''_roughness'')
                (the (map_of ROUGHNESS mat_type)) 0.1)]"

definition material_events :: "string \<Rightarrow> event list" where
  "material_events mat_type =
     [Printed (''      Creating material: '' @ mat_type), Called (CreatePbrMaterial mat_type)]"

definition import_events :: "event list" where
  "import_events =
     [Printed (''\<newline>'' @ replicate 80 CHR ''=''),
      Printed ''PBR MATERIAL SETUP FOR MOTHER & BABY 3D MODEL'',
      Printed (replicate 80 CHR ''='' @ ''\<newline>''),
      Printed ''[1/5] Importing GLB model...'',
      Called OpSelectAll,
      Called OpDelete,
      Called (OpImportGltf INPUT_GLB),
      Printed (''      Imported: '' @ INPUT_GLB),
      Printed ''\<newline>[2/5] Generating textures...'',
      Called (MakeDirs TEXTURE_DIR)]"

definition export_events :: "string \<Rightarrow> event list" where
  "export_events export_path =
     [Printed ''\<newline>[5/5] Exporting GLB with embedded textures...'',
      Called OpSelectAll,
      Called (OpExportGltf export_path),
      Printed (''\<newline>'' @ check_mark @ '' Export complete!''),
      Printed (''  Output: '' @ export_path),
      Printed ''  All textures embedded in GLB.\<newline>'',
      Printed (replicate 80 CHR ''=''),
      Printed ''VERIFICATION CHECKLIST (open in GLB viewer or engine):'',
      Printed (replicate 80 CHR ''=''),
      Printed (ballot_box @ '' Saree appears deep warm red (#C8333A)''),
      Printed (ballot_box @ '' Hair appears near-black (#0d0d0d) with subtle shine''),
      Printed (ballot_box @ '' Mother skin appears warm medium tone (#E6B38A)''),
      Printed (ballot_box @ '' Baby skin appears lighter warm (#F0C8A3)''),
      Printed (ballot_box @ '' Baby hair appears dark with texture''),
      Printed (ballot_box @ '' Base/pedestal appears light warm (#F6D7B0)''),
      Printed (ballot_box @ '' Normal maps show subtle surface detail (not too intense)''),
      Printed (ballot_box @ '' No external image references (all embedded)''),
      Printed (ballot_box
               @ '' Model renders correctly in three.js / Babylon.js / Cesium\<newline>'')]"

definition writes_to :: "'m store \<Rightarrow> nat \<Rightarrow> object \<Rightarrow> bool" where
  "writes_to st d obj \<longleftrightarrow>
     obj_data obj = Some d \<and> obj_type st obj = ''MESH'' \<and> match_mesh (obj_name obj) \<noteq> None"






section \<open>Facts about strings and tables\<close>

text \<open>No key is declared twice, so each association list is the dict the source builds.\<close>

lemma tables_distinct_keys:
  "distinct (map fst MESH_MATERIAL_MAP)" "distinct (map fst COLORS)"
  "distinct (map fst ROUGHNESS)" "distinct (map fst METALLIC)"
  by (simp_all add: MESH_MATERIAL_MAP_def COLORS_def ROUGHNESS_def METALLIC_def)

lemma str_contains_sublist: "str_contains sub s = sublist sub s"
  by (induction s) (simp_all add: sublist_Cons_right)

lemma str_contains_trans:
  "str_contains a b \<Longrightarrow> str_contains b c \<Longrightarrow> str_contains a c"
  unfolding str_contains_sublist by (rule sublist_order.order_trans)

section \<open>The mesh-name matcher\<close>

lemma find_mat_type_None:
  "find_mat_type tbl n = None \<longleftrightarrow>
     (\<forall>i<length tbl. \<not> sublist (lower (fst (tbl ! i))) (lower n))"
proof (induction tbl)
  case Nil
  show ?case by simp
next
  case (Cons e tbl)
  obtain k v where e: "e = (k, v)" by (cases e)
  show ?case
  proof (cases "sublist (lower k) (lower n)")
    case True
    then show ?thesis using e by (auto simp: str_contains_sublist)
  next
    case False
    have "(\<forall>i<Suc (length tbl). \<not> sublist (lower (fst ((e # tbl) ! i))) (lower n)) \<longleftrightarrow>
          (\<forall>i<length tbl. \<not> sublist (lower (fst (tbl ! i))) (lower n))"
      using False e by (auto simp: less_Suc_eq_0_disj)
    then show ?thesis using False e Cons.IH by (simp add: str_contains_sublist)
  qed
qed

lemma find_mat_type_Some:
  "find_mat_type tbl n = Some m \<Longrightarrow>
     \<exists>i<length tbl. sublist (lower (fst (tbl ! i))) (lower n)
        \<and> (\<forall>j<i. \<not> sublist (lower (fst (tbl ! j))) (lower n))
        \<and> m = snd (tbl ! i)"
proof (induction tbl)
  case Nil
  then show ?case by simp
next
  case (Cons e tbl)
  obtain k v where e: "e = (k, v)" by (cases e)
  show ?case
  proof (cases "sublist (lower k) (lower n)")
    case True
    then have "m = v" using Cons.prems e by (simp add: str_contains_sublist)
    then show ?thesis using True e by (intro exI[of _ 0]) simp
  next
    case False
    then have "find_mat_type tbl n = Some m"
      using Cons.prems e by (simp add: str_contains_sublist)
    then obtain i where i: "i < length tbl" "sublist (lower (fst (tbl ! i))) (lower n)"
      "\<forall>j<i. \<not> sublist (lower (fst (tbl ! j))) (lower n)" "m = snd (tbl ! i)"
      using Cons.IH by blast
    have "\<forall>j<Suc i. \<not> sublist (lower (fst ((e # tbl) ! j))) (lower n)"
      using False e i(3) by (auto simp: less_Suc_eq_0_disj)
    then show ?thesis using i by (intro exI[of _ "Suc i"]) simp
  qed
qed

text \<open>
  Claim C1. The matcher scans the table in declaration order and tests, ignoring case,
  whether the key occurs in the object's name as a contiguous substring. For every name
  the result is either no material, and then no key of the table occurs in the name, or
  the material of the earliest entry whose key occurs in it. When the result is no
  material, the iteration of the assignment loop for that object assigns nothing: it
  leaves the store and the events as they are.
\<close>

theorem match_mesh_first_match:
  "((match_mesh name = None
      \<and> (\<forall>i<length MESH_MATERIAL_MAP.
            \<not> sublist (lower (fst (MESH_MATERIAL_MAP ! i))) (lower name)))
    \<or> (\<exists>i<length MESH_MATERIAL_MAP.
         sublist (lower (fst (MESH_MATERIAL_MAP ! i))) (lower name)
         \<and> (\<forall>j<i. \<not> sublist (lower (fst (MESH_MATERIAL_MAP ! j))) (lower name))
         \<and> match_mesh name = Some (snd (MESH_MATERIAL_MAP ! i))))
   \<and> (match_mesh (obj_name obj) = None
        \<longrightarrow> assign_materials mats (obj # rest) (st, out)
            = assign_materials mats rest (st, out))"
proof (rule conjI)
  show "(match_mesh name = None
      \<and> (\<forall>i<length MESH_MATERIAL_MAP.
            \<not> sublist (lower (fst (MESH_MATERIAL_MAP ! i))) (lower name)))
    \<or> (\<exists>i<length MESH_MATERIAL_MAP.
         sublist (lower (fst (MESH_MATERIAL_MAP ! i))) (lower name)
         \<and> (\<forall>j<i. \<not> sublist (lower (fst (MESH_MATERIAL_MAP ! j))) (lower name))
         \<and> match_mesh name = Some (snd (MESH_MATERIAL_MAP ! i)))"
  proof (cases "match_mesh name")
    case None
    then show ?thesis
      using find_mat_type_None[of MESH_MATERIAL_MAP name] by (simp add: match_mesh_def)
  next
    case (Some m)
    then show ?thesis
      using find_mat_type_Some[of MESH_MATERIAL_MAP name m] by (auto simp: match_mesh_def)
  qed
  show "match_mesh (obj_name obj) = None
        \<longrightarrow> assign_materials mats (obj # rest) (st, out)
            = assign_materials mats rest (st, out)"
    by simp
qed

theorem match_mesh_first_match_witness:
  "(\<exists>i<length MESH_MATERIAL_MAP.
      sublist (lower (fst (MESH_MATERIAL_MAP ! i))) (lower ''Pedestal'')
      \<and> match_mesh ''Pedestal'' = Some (snd (MESH_MATERIAL_MAP ! i)))
   \<and> assign_materials sample_materials
         [\<lparr>obj_name = ''unknown_mesh'', obj_data = Some 0\<rparr>,
          \<lparr>obj_name = ''wall'', obj_data = Some 0\<rparr>]
         (sample_store [''old''], [])
       = assign_materials sample_materials [\<lparr>obj_name = ''wall'', obj_data = Some 0\<rparr>]
           (sample_store [''old''], [])"
proof -
  have 1: "match_mesh ''Pedestal'' \<noteq> None" by code_simp
  have 2: "match_mesh (obj_name \<lparr>obj_name = ''unknown_mesh'', obj_data = Some 0\<rparr>) = None"
    by code_simp
  show ?thesis
    using 1 2 match_mesh_first_match[of "''Pedestal''"
        "\<lparr>obj_name = ''unknown_mesh'', obj_data = Some 0\<rparr>" sample_materials
        "[\<lparr>obj_name = ''wall'', obj_data = Some 0\<rparr>]" "sample_store [''old'']" "[]"]
    by auto
qed

text \<open>
  Claim C2. The matcher on the three literal names of the specification:
  \<open>Mother_Skin_001\<close> gets \<open>mother_skin\<close>, \<open>Pedestal\<close> gets \<open>base\<close>, and
  \<open>unknown_mesh\<close> matches no key.
\<close>

theorem match_mesh_literals:
  "match_mesh ''Mother_Skin_001'' = Some ''mother_skin''
   \<and> match_mesh ''Pedestal'' = Some ''base''
   \<and> match_mesh ''unknown_mesh'' = None"
  by code_simp

text \<open>The table with its keys lower-cased, and the scan over it.\<close>

lemma lower_keys:
  "map (\<lambda>(k, v). (lower k, v)) MESH_MATERIAL_MAP =
    [(''saree'', ''saree''),
     (''saree'', ''saree''),
     (''cloth'', ''saree''),
     (''cloth'', ''saree''),
     (''garment'', ''saree''),
     (''hair'', ''hair''),
     (''hair'', ''hair''),
     (''head_hair'', ''hair''),
     (''mother_hair'', ''hair''),
     (''mother_skin'', ''mother_skin''),
     (''mother_skin'', ''mother_skin''),
     (''skin'', ''mother_skin''),
     (''skin'', ''mother_skin''),
     (''body'', ''mother_skin''),
     (''face'', ''mother_skin''),
     (''baby_skin'', ''baby_skin''),
     (''baby_skin'', ''baby_skin''),
     (''baby_body'', ''baby_skin''),
     (''baby_hair'', ''baby_hair''),
     (''baby_hair'', ''baby_hair''),
     (''baby_head'', ''baby_hair''),
     (''base'', ''base''),
     (''base'', ''base''),
     (''pedestal'', ''base''),
     (''pedestal'', ''base''),
     (''stand'', ''base'')]"
  by code_simp

lemma find_mat_type_lowered:
  "find_mat_type tbl n =
     map_option snd (find (\<lambda>(k, v). sublist k (lower n)) (map (\<lambda>(k, v). (lower k, v)) tbl))"
  by (induction tbl) (auto simp: str_contains_sublist)

lemmas match_mesh_unfold = match_mesh_def find_mat_type_lowered lower_keys

lemma key_inclusions:
  "sublist ''skin'' ''baby_skin''" "sublist ''body'' ''baby_body''"
  by code_simp+

lemma match_mesh_never_baby_skin: "match_mesh n \<noteq> Some ''baby_skin''"
proof -
  have a: "sublist ''baby_skin'' (lower n) \<Longrightarrow> sublist ''skin'' (lower n)"
    using key_inclusions(1) sublist_order.order_trans by blast
  have b: "sublist ''baby_body'' (lower n) \<Longrightarrow> sublist ''body'' (lower n)"
    using key_inclusions(2) sublist_order.order_trans by blast
  show ?thesis using a b by (auto simp: match_mesh_unfold)
qed

lemma match_mesh_skin:
  assumes "sublist ''skin'' (lower n)"
    and "\<forall>k \<in> set [''saree'', ''Saree'', ''cloth'', ''Cloth'', ''garment'', ''hair'',
                     ''head_hair'', ''mother_hair'', ''mother_skin'', ''Mother_Skin''].
           \<not> sublist (lower k) (lower n)"
  shows "match_mesh n = Some ''mother_skin''"
proof -
  have l: "map lower [''saree'', ''Saree'', ''cloth'', ''Cloth'', ''garment'', ''hair'',
                     ''head_hair'', ''mother_hair'', ''mother_skin'', ''Mother_Skin'']
     = [''saree'', ''saree'', ''cloth'', ''cloth'', ''garment'', ''hair'',
                     ''head_hair'', ''mother_hair'', ''mother_skin'', ''mother_skin'']"
    by code_simp
  have "\<forall>k \<in> set (map lower [''saree'', ''Saree'', ''cloth'', ''Cloth'', ''garment'', ''hair'',
                     ''head_hair'', ''mother_hair'', ''mother_skin'', ''Mother_Skin'']).
           \<not> sublist k (lower n)"
    using assms(2) by simp
  then have "\<not> sublist ''saree'' (lower n)" "\<not> sublist ''cloth'' (lower n)"
       "\<not> sublist ''garment'' (lower n)" "\<not> sublist ''hair'' (lower n)"
       "\<not> sublist ''head_hair'' (lower n)" "\<not> sublist ''mother_hair'' (lower n)"
       "\<not> sublist ''mother_skin'' (lower n)"
    unfolding l by simp_all
  then show ?thesis using assms(1) by (simp add: match_mesh_unfold)
qed

lemma earlier_keys:
  "MESH_MATERIAL_MAP ! 11 = (''skin'', ''mother_skin'')"
  "MESH_MATERIAL_MAP ! 15 = (''baby_skin'', ''baby_skin'')"
  "MESH_MATERIAL_MAP ! 16 = (''Baby_Skin'', ''baby_skin'')"
  "set (map (lower \<circ> fst) (take 11 MESH_MATERIAL_MAP))
     = set (map lower [''saree'', ''Saree'', ''cloth'', ''Cloth'', ''garment'', ''hair'',
                       ''head_hair'', ''mother_hair'', ''mother_skin'', ''Mother_Skin''])"
  by code_simp+

section \<open>Facts about the emitted array\<close>

lemma digit_char_table:
  "\<forall>d \<in> set [0..<16].
     hexval (digit_char d) = Some d \<and> \<not> is_ws (digit_char d) \<and> digit_char d \<noteq> CHR '',''"
  by code_simp

lemma digit_char_facts:
  assumes "d < 16"
  shows "hexval (digit_char d) = Some d" "\<not> is_ws (digit_char d)" "digit_char d \<noteq> CHR '',''"
  using digit_char_table assms by auto

lemma unat_byte_div: "unat (b :: byte) div 16 < 16"
proof -
  have "unat b < 256" using unsigned_less[of b] by simp
  then show ?thesis by simp
qed

lemma read_fmt_02x: "read_hex_byte (''0x'' @ fmt_02x b) = Some b"
proof -
  have "(of_nat (16 * (unat b div 16) + unat b mod 16) :: byte) = b" by simp
  then show ?thesis
    by (simp add: read_hex_byte_def fmt_02x_def digit_char_facts(1) unat_byte_div)
qed

lemma write_bytes_append: "write_bytes f i n bs = f @ write_bytes [] i n bs"
proof (induction bs arbitrary: f i)
  case Nil
  show ?case by simp
next
  case (Cons b bs)
  show ?case
    by (subst (1 2) write_bytes.simps) (simp add: Let_def Cons.IH[of "_ @ _"] Cons.IH[of "_ # _"])
qed

text \<open>What the loop writes after the literal of byte \<open>i\<close>.\<close>

lemma write_bytes_Cons:
  "write_bytes [] i n (b # bs) =
     ''0x'' @ fmt_02x b
     @ (if int i < int n - 1
        then '','' @ (if (i + 1) mod 16 = 0 then ''\<newline>  '' else '' '') else [])
     @ write_bytes [] (i + 1) n bs"
  by (subst write_bytes.simps, subst write_bytes_append) (simp add: Let_def)

lemma split_on_notin: "d \<notin> set a \<Longrightarrow> split_on d a = [a]"
  by (induction a) auto

lemma split_on_append: "d \<notin> set a \<Longrightarrow> split_on d (a @ d # r) = a # split_on d r"
  by (induction a) auto

lemma trim_literal:
  assumes "\<forall>c \<in> set ws. is_ws c"
  shows "trim (ws @ ''0x'' @ fmt_02x b) = ''0x'' @ fmt_02x b"
proof -
  have "dropWhile is_ws (ws @ (''0x'' @ fmt_02x b)) = dropWhile is_ws (''0x'' @ fmt_02x b)"
    by (rule dropWhile_append2) (use assms in blast)
  moreover have "\<not> is_ws CHR ''0''" by (simp add: is_ws_def)
  ultimately have 1: "dropWhile is_ws (ws @ ''0x'' @ fmt_02x b) = ''0x'' @ fmt_02x b"
    by simp
  have 2: "\<not> is_ws (digit_char (unat b mod 16))" by (simp add: digit_char_facts(2))
  show ?thesis unfolding trim_def 1 using 2 by (simp add: fmt_02x_def)
qed

lemma no_comma_literal:
  assumes "\<forall>c \<in> set ws. is_ws c"
  shows "CHR '','' \<notin> set (ws @ ''0x'' @ fmt_02x b)"
proof -
  have "\<not> is_ws CHR '',''" by (simp add: is_ws_def)
  then have "CHR '','' \<notin> set ws" using assms by blast
  moreover have "CHR '','' \<notin> set (fmt_02x b)"
    using digit_char_facts(3)[of "unat b div 16"] digit_char_facts(3)[of "unat b mod 16"]
      unat_byte_div[of b]
    by (simp add: fmt_02x_def)
  ultimately show ?thesis by simp
qed

lemma items_write_bytes:
  assumes "bs \<noteq> []" "n = i + length bs" "\<forall>c \<in> set ws. is_ws c"
  shows "map trim (split_on CHR '','' (ws @ write_bytes [] i n bs))
         = map (\<lambda>b. ''0x'' @ fmt_02x b) bs"
  using assms
proof (induction bs arbitrary: i ws)
  case Nil
  then show ?case by simp
next
  case (Cons b bs)
  show ?case
  proof (cases "bs = []")
    case True
    then have "\<not> int i < int n - 1" using Cons.prems(2) by simp
    then have "ws @ write_bytes [] i n (b # bs) = ws @ ''0x'' @ fmt_02x b"
      using True by (simp add: write_bytes_Cons del: write_bytes.simps(2))
    then show ?thesis
      using True split_on_notin[OF no_comma_literal[OF Cons.prems(3), of b]]
        trim_literal[OF Cons.prems(3), of b] by simp
  next
    case False
    define ws' where "ws' = (if (i + 1) mod 16 = 0 then ''\<newline>  '' else '' '')"
    have ws': "\<forall>c \<in> set ws'. is_ws c" by (simp add: ws'_def is_ws_def)
    have "int i < int n - 1" using False Cons.prems(2) by (cases bs) simp_all
    then have "ws @ write_bytes [] i n (b # bs)
        = (ws @ ''0x'' @ fmt_02x b) @ CHR '','' # (ws' @ write_bytes [] (i + 1) n bs)"
      by (simp add: write_bytes_Cons ws'_def del: write_bytes.simps(2))
    then have "split_on CHR '','' (ws @ write_bytes [] i n (b # bs))
        = (ws @ ''0x'' @ fmt_02x b) # split_on CHR '','' (ws' @ write_bytes [] (i + 1) n bs)"
      using split_on_append[OF no_comma_literal[OF Cons.prems(3), of b]]
      by (simp del: write_bytes.simps(2))
    moreover have "map trim (split_on CHR '','' (ws' @ write_bytes [] (i + 1) n bs))
        = map (\<lambda>b. ''0x'' @ fmt_02x b) bs"
      using Cons.IH[OF False _ ws'] Cons.prems(2) by simp
    ultimately show ?thesis using trim_literal[OF Cons.prems(3), of b] by simp
  qed
qed

lemma those_map_Some: "those (map (\<lambda>x. Some (f x)) xs) = Some (map f xs)"
  by (induction xs) auto

lemma read_write_bytes:
  assumes "bs \<noteq> []"
  shows "read_initializer (write_bytes [] 0 (length bs) bs) = Some bs"
proof -
  have "map trim (split_on CHR '','' (write_bytes [] 0 (length bs) bs))
        = map (\<lambda>b. ''0x'' @ fmt_02x b) bs"
    using items_write_bytes[OF assms, of "length bs" 0 "[]"] by simp
  then have "map read_hex_byte (map trim (split_on CHR '','' (write_bytes [] 0 (length bs) bs)))
     = map (\<lambda>b. Some b) bs"
    by (simp add: read_fmt_02x[simplified] comp_def)
  then have "map (read_hex_byte \<circ> trim) (split_on CHR '','' (write_bytes [] 0 (length bs) bs))
     = map (\<lambda>b. Some b) bs"
    by simp
  then show ?thesis unfolding read_initializer_def using those_map_Some[of id bs] by simp
qed

lemma header_model_data_eq:
  "header_model_data model_name description = ascii_bytes ''TFL3'' @ replicate 1020 0"
  by (simp add: header_model_data_def)

lemma length_header_model_data: "length (header_model_data model_name description) = 1024"
  by (simp add: header_model_data_eq ascii_bytes_def)

lemma str_nat_1024: "str_nat 1024 = ''1024''"
  by code_simp

lemma generate_c_header_text:
  "file_text (generate_c_header model_name description) =
     ''#ifndef '' @ upper model_name @ ''_H\<newline>''
     @ ''#define '' @ upper model_name @ ''_H\<newline>\<newline>''
     @ ''// Model: '' @ description @ ''\<newline>''
     @ ''// NOTE: Placeholder - firmware uses rule-based AI\<newline>\<newline>''
     @ ''const unsigned char '' @ model_name @ ''_tflite[] __attribute__((aligned(16))) = {\<newline>  ''
     @ write_bytes [] 0 1024 (header_model_data model_name description)
     @ ''\<newline>};\<newline>\<newline>''
     @ ''const unsigned int '' @ model_name @ ''_tflite_len = 1024;\<newline>\<newline>''
     @ ''#endif // '' @ upper model_name @ ''_H\<newline>''"
  unfolding generate_c_header_def Let_def
  by (subst write_bytes_append) (simp add: length_header_model_data str_nat_1024)

section \<open>The model buffers\<close>

lemma nth_tag_zeros:
  assumes "4 \<le> i" "i < 4 + n"
  shows "(ascii_bytes ''TFL3'' @ replicate n (0 :: byte)) ! i = 0"
proof -
  have "length (ascii_bytes ''TFL3'') = 4" by (simp add: ascii_bytes_def)
  then show ?thesis using assms by (simp add: nth_append)
qed

lemma stub_eq:
  "generate_minimal_tflite_stub input_size output_size = ascii_bytes ''TFL3'' @ replicate 1000 0"
  by (simp add: generate_minimal_tflite_stub_def)

text \<open>
  Claim C4. Every buffer the two generator scripts build starts with the four bytes of the
  ASCII tag \<open>TFL3\<close> and is zero at every index from 4 on; within a script the length
  does not depend on the call's arguments: 1024 bytes in simple_gen.py, 1004 bytes in
  generate_tflite_models.py.
\<close>

theorem model_buffers_layout:
  "length (header_model_data model_name description) = 1024
   \<and> take 4 (header_model_data model_name description) = ascii_bytes ''TFL3''
   \<and> (\<forall>i. 4 \<le> i \<and> i < length (header_model_data model_name description)
          \<longrightarrow> header_model_data model_name description ! i = 0)
   \<and> returned (generate_c_header model_name description) = 1024
   \<and> length (generate_minimal_tflite_stub input_size output_size) = 1004
   \<and> take 4 (generate_minimal_tflite_stub input_size output_size) = ascii_bytes ''TFL3''
   \<and> (\<forall>i. 4 \<le> i \<and> i < length (generate_minimal_tflite_stub input_size output_size)
          \<longrightarrow> generate_minimal_tflite_stub input_size output_size ! i = 0)
   \<and> ascii_bytes ''TFL3'' = [0x54, 0x46, 0x4C, 0x33]"
proof -
  have t: "length (ascii_bytes ''TFL3'') = 4" by (simp add: ascii_bytes_def)
  have 1: "length (header_model_data model_name description) = 1024"
    by (rule length_header_model_data)
  have 2: "take 4 (header_model_data model_name description) = ascii_bytes ''TFL3''"
    using t by (simp add: header_model_data_eq)
  have 3: "\<forall>i. 4 \<le> i \<and> i < length (header_model_data model_name description)
          \<longrightarrow> header_model_data model_name description ! i = 0"
    unfolding 1 using nth_tag_zeros[of _ 1020] by (simp add: header_model_data_eq)
  have 4: "returned (generate_c_header model_name description) = 1024"
    by (simp add: generate_c_header_def Let_def length_header_model_data)
  have 5: "length (generate_minimal_tflite_stub input_size output_size) = 1004"
    using t by (simp add: stub_eq)
  have 6: "take 4 (generate_minimal_tflite_stub input_size output_size) = ascii_bytes ''TFL3''"
    using t by (simp add: stub_eq)
  have 7: "\<forall>i. 4 \<le> i \<and> i < length (generate_minimal_tflite_stub input_size output_size)
          \<longrightarrow> generate_minimal_tflite_stub input_size output_size ! i = 0"
    unfolding 5 using nth_tag_zeros[of _ 1000] by (simp add: stub_eq)
  have 8: "ascii_bytes ''TFL3'' = [0x54, 0x46, 0x4C, 0x33 :: byte]"
    by (simp add: ascii_bytes_def)
  show ?thesis using 1 2 3 4 5 6 7 8 by blast
qed

theorem model_buffers_layout_witness:
  "header_model_data ''anemia_risk_model'' ''Anemia Risk Assessment'' ! 4 = 0
   \<and> header_model_data ''anemia_risk_model'' ''Anemia Risk Assessment'' ! 1023 = 0
   \<and> generate_minimal_tflite_stub 5 4 ! 1003 = 0
   \<and> length (header_model_data ''anemia_risk_model'' ''Anemia Risk Assessment'') = 1024
   \<and> length (generate_minimal_tflite_stub 5 4) = 1004"
  using model_buffers_layout[of "''anemia_risk_model''" "''Anemia Risk Assessment''" 5 4]
  by simp

text \<open>
  Claim C9. \<open>generate_minimal_tflite_stub\<close> ignores both parameters: any two calls return
  the same 1004 bytes, the tag \<open>TFL3\<close> followed by 1000 zero bytes, so the three
  placeholder models of the script are equal as byte strings.
\<close>

theorem stub_ignores_sizes:
  "generate_minimal_tflite_stub input_size output_size
     = generate_minimal_tflite_stub input_size' output_size'
   \<and> generate_minimal_tflite_stub input_size output_size
     = ascii_bytes ''TFL3'' @ replicate 1000 0
   \<and> length (generate_minimal_tflite_stub input_size output_size) = 1004
   \<and> arrhythmia_model = anemia_model
   \<and> anemia_model = preeclampsia_model
   \<and> arrhythmia_model = preeclampsia_model"
  by (simp add: stub_eq arrhythmia_model_def anemia_model_def preeclampsia_model_def
      ascii_bytes_def)

section \<open>The emitted header\<close>

text \<open>
  Claim C5. For every model name the header declares \<open><model_name>_tflite_len\<close> with
  the value the call returns, 1024, and the initializer of the \<open><model_name>_tflite\<close>
  array, read back, holds exactly that many byte literals.
\<close>

theorem header_len_matches_literals:
  "file_text (generate_c_header model_name description) =
     ''#ifndef '' @ upper model_name @ ''_H\<newline>''
     @ ''#define '' @ upper model_name @ ''_H\<newline>\<newline>''
     @ ''// Model: '' @ description @ ''\<newline>''
     @ ''// NOTE: Placeholder - firmware uses rule-based AI\<newline>\<newline>''
     @ ''const unsigned char '' @ model_name @ ''_tflite[] __attribute__((aligned(16))) = {\<newline>  ''
     @ write_bytes [] 0 1024 (header_model_data model_name description)
     @ ''\<newline>};\<newline>\<newline>''
     @ ''const unsigned int '' @ model_name @ ''_tflite_len = ''
     @ str_nat (returned (generate_c_header model_name description)) @ '';\<newline>\<newline>''
     @ ''#endif // '' @ upper model_name @ ''_H\<newline>''
   \<and> map_option length
        (read_initializer (write_bytes [] 0 1024 (header_model_data model_name description)))
       = Some (returned (generate_c_header model_name description))
   \<and> returned (generate_c_header model_name description) = 1024
   \<and> str_nat 1024 = ''1024''"
proof -
  have r: "returned (generate_c_header model_name description) = 1024"
    by (simp add: generate_c_header_def Let_def length_header_model_data)
  have "header_model_data model_name description \<noteq> []"
    using length_header_model_data[of model_name description] by auto
  from read_write_bytes[OF this]
  have "read_initializer (write_bytes [] 0 1024 (header_model_data model_name description))
        = Some (header_model_data model_name description)"
    by (simp add: length_header_model_data)
  then have "map_option length
        (read_initializer (write_bytes [] 0 1024 (header_model_data model_name description)))
       = Some 1024"
    by (simp add: length_header_model_data)
  then show ?thesis
    using r generate_c_header_text[of model_name description] str_nat_1024 by simp
qed

lemma upper_names:
  "upper ''arrhythmia_risk_model'' = ''ARRHYTHMIA_RISK_MODEL''"
  "upper ''anemia_risk_model'' = ''ANEMIA_RISK_MODEL''"
  "upper ''preeclampsia_risk_model'' = ''PREECLAMPSIA_RISK_MODEL''"
  by code_simp+

text \<open>
  Claim C7. A header written by the script is text of this shape: the include guard
  \<open>#ifndef G\<close>, \<open>#define G\<close> at the top and \<open>#endif // G\<close> at the end, where \<open>G\<close> is
  the upper-cased model name followed by \<open>_H\<close>; two comment lines; the array
  \<open>const unsigned char <model_name>_tflite[]\<close> whose initializer reads back as the bytes
  of the buffer, each written as a hexadecimal literal; and the constant
  \<open>const unsigned int <model_name>_tflite_len\<close>. Its path is \<open>models_h/<model_name>.h\<close>,
  and the script writes the three headers of its three literal model names.
\<close>

theorem header_text_layout:
  "header_path (generate_c_header model_name description) = ''models_h/'' @ model_name @ ''.h''
   \<and> file_text (generate_c_header model_name description) =
     ''#ifndef '' @ (upper model_name @ ''_H'') @ ''\<newline>''
     @ ''#define '' @ (upper model_name @ ''_H'') @ ''\<newline>\<newline>''
     @ ''// Model: '' @ description @ ''\<newline>''
     @ ''// NOTE: Placeholder - firmware uses rule-based AI\<newline>\<newline>''
     @ ''const unsigned char '' @ model_name @ ''_tflite[] __attribute__((aligned(16))) = {\<newline>  ''
     @ write_bytes [] 0 1024 (header_model_data model_name description)
     @ ''\<newline>};\<newline>\<newline>''
     @ ''const unsigned int '' @ model_name @ ''_tflite_len = 1024;\<newline>\<newline>''
     @ ''#endif // '' @ (upper model_name @ ''_H'') @ ''\<newline>''
   \<and> read_initializer (write_bytes [] 0 1024 (header_model_data model_name description))
       = Some (header_model_data model_name description)
   \<and> simple_gen_headers =
       [generate_c_header ''arrhythmia_risk_model'' ''Arrhythmia Detection'',
        generate_c_header ''anemia_risk_model'' ''Anemia Risk Assessment'',
        generate_c_header ''preeclampsia_risk_model'' ''Preeclampsia Detection'']
   \<and> map header_path simple_gen_headers =
       [''models_h/arrhythmia_risk_model.h'', ''models_h/anemia_risk_model.h'',
        ''models_h/preeclampsia_risk_model.h'']
   \<and> map (\<lambda>n. upper n @ ''_H'')
        [''arrhythmia_risk_model'', ''anemia_risk_model'', ''preeclampsia_risk_model'']
       = [''ARRHYTHMIA_RISK_MODEL_H'', ''ANEMIA_RISK_MODEL_H'', ''PREECLAMPSIA_RISK_MODEL_H'']"
proof -
  have p: "header_path (generate_c_header model_name description)
           = ''models_h/'' @ model_name @ ''.h''"
    by (simp add: generate_c_header_def Let_def)
  have "header_model_data model_name description \<noteq> []"
    using length_header_model_data[of model_name description] by auto
  from read_write_bytes[OF this]
  have r: "read_initializer (write_bytes [] 0 1024 (header_model_data model_name description))
        = Some (header_model_data model_name description)"
    by (simp add: length_header_model_data)
  have s: "map header_path simple_gen_headers =
       [''models_h/arrhythmia_risk_model.h'', ''models_h/anemia_risk_model.h'',
        ''models_h/preeclampsia_risk_model.h'']"
    by (simp add: simple_gen_headers_def generate_c_header_def Let_def)
  have g: "map (\<lambda>n. upper n @ ''_H'')
        [''arrhythmia_risk_model'', ''anemia_risk_model'', ''preeclampsia_risk_model'']
       = [''ARRHYTHMIA_RISK_MODEL_H'', ''ANEMIA_RISK_MODEL_H'', ''PREECLAMPSIA_RISK_MODEL_H'']"
    by (simp add: upper_names)
  show ?thesis
    using p r s g generate_c_header_text[of model_name description]
    by (simp add: simple_gen_headers_def)
qed

section \<open>The assignment loop\<close>

lemma obj_type_update [simp]:
  "obj_type (st(d := (st d)\<lparr>data_materials := ms\<rparr>)) obj = obj_type st obj"
  by (simp add: obj_type_def split: option.splits)

lemma writes_to_update [simp]:
  "writes_to (st(d := (st d)\<lparr>data_materials := ms\<rparr>)) d' obj = writes_to st d' obj"
  by (simp add: writes_to_def)

lemma match_mesh_in_table:
  assumes "match_mesh n = Some mt"
  shows "mt \<in> snd ` set MESH_MATERIAL_MAP"
proof -
  obtain i where "i < length MESH_MATERIAL_MAP" "mt = snd (MESH_MATERIAL_MAP ! i)"
    using find_mat_type_Some[of MESH_MATERIAL_MAP n mt] assms by (auto simp: match_mesh_def)
  then show ?thesis by (metis image_eqI nth_mem)
qed

lemma table_values_nonempty: "\<forall>mt \<in> snd ` set MESH_MATERIAL_MAP. mt \<noteq> []"
  by (simp add: MESH_MATERIAL_MAP_def)

lemma assign_materials_step:
  assumes "snd ` set MESH_MATERIAL_MAP \<subseteq> dom mats"
  shows "assign_materials mats (obj # rest) (st, out) =
     (case obj_data obj of
        Some d \<Rightarrow>
          (if writes_to st d obj then
             assign_materials mats rest
               (st(d := (st d)\<lparr>data_materials := [the (mats (the (match_mesh (obj_name obj))))]\<rparr>),
                out @ [Printed (''      '' @ obj_name obj @ '' -> '' @ the (match_mesh (obj_name obj))),
                       SlotsCleared d, SlotAppended d (the (match_mesh (obj_name obj)))])
           else assign_materials mats rest (st, out))
      | None \<Rightarrow> assign_materials mats rest (st, out))"
proof (cases "obj_data obj")
  case None
  then show ?thesis by (simp add: obj_type_def)
next
  case (Some d)
  show ?thesis
  proof (cases "match_mesh (obj_name obj)")
    case None
    then show ?thesis using Some by (simp add: writes_to_def)
  next
    case (Some mt)
    then have "mt \<noteq> []" "mt \<in> dom mats"
      using match_mesh_in_table[OF Some] table_values_nonempty assms by auto
    then show ?thesis using Some \<open>obj_data obj = Some d\<close>
      by (auto simp: writes_to_def Let_def)
  qed
qed

lemma find_app:
  "find P (xs @ ys) = (case find P xs of None \<Rightarrow> find P ys | Some x \<Rightarrow> Some x)"
  by (induction xs) auto

lemma assign_materials_store:
  assumes "snd ` set MESH_MATERIAL_MAP \<subseteq> dom mats"
  shows "kind (fst (assign_materials mats objs (st, out)) d) = kind (st d)
     \<and> data_materials (fst (assign_materials mats objs (st, out)) d) =
        (case find (writes_to st d) (rev objs) of
           None \<Rightarrow> data_materials (st d)
         | Some obj \<Rightarrow> [the (mats (the (match_mesh (obj_name obj))))])"
proof (induction objs arbitrary: st out)
  case Nil
  show ?case by simp
next
  case (Cons obj rest)
  note step = assign_materials_step[OF assms, of obj rest st out]
  show ?case
  proof (cases "\<exists>d'. obj_data obj = Some d' \<and> writes_to st d' obj")
    case False
    then have "assign_materials mats (obj # rest) (st, out) = assign_materials mats rest (st, out)"
      unfolding step by (auto split: option.splits)
    moreover have "\<not> writes_to st d obj" using False by (auto simp: writes_to_def)
    ultimately show ?thesis using Cons.IH[of st out]
      by (simp add: find_app split: option.splits)
  next
    case True
    then obtain d' where d': "obj_data obj = Some d'" "writes_to st d' obj" by blast
    define st1 where "st1 = st(d' :=
        (st d')\<lparr>data_materials := [the (mats (the (match_mesh (obj_name obj))))]\<rparr>)"
    obtain out1 where
      eq: "assign_materials mats (obj # rest) (st, out) = assign_materials mats rest (st1, out1)"
      unfolding step st1_def using d' by simp
    have w: "writes_to st1 d = writes_to st d" unfolding st1_def by (rule ext) simp
    have wd: "writes_to st d obj \<longleftrightarrow> d = d'" using d' by (auto simp: writes_to_def)
    have k1: "kind (st1 d) = kind (st d)" by (simp add: st1_def)
    have m1: "data_materials (st1 d) =
        (if d = d' then [the (mats (the (match_mesh (obj_name obj))))] else data_materials (st d))"
      by (simp add: st1_def)
    have f: "find (writes_to st d) (rev (obj # rest)) =
        (case find (writes_to st d) (rev rest) of
           None \<Rightarrow> (if d = d' then Some obj else None)
         | Some x \<Rightarrow> Some x)"
      using wd by (auto simp: find_app split: option.splits)
    show ?thesis
      unfolding eq f using Cons.IH[of st1 out1] unfolding w k1 m1
      by (simp split: option.splits)
  qed
qed

lemma table_values_in_COLORS: "snd ` set MESH_MATERIAL_MAP \<subseteq> fst ` set COLORS"
  by (simp add: MESH_MATERIAL_MAP_def COLORS_def)

lemma find_SomeD: "find P xs = Some x \<Longrightarrow> P x \<and> x \<in> set xs"
  by (induction xs) (auto split: if_splits)

lemma slots_assign_materials:
  assumes "snd ` set MESH_MATERIAL_MAP \<subseteq> dom mats"
  shows "slots (fst (assign_materials mats objs (st, out))) obj =
     (case obj_data obj of
        None \<Rightarrow> []
      | Some d \<Rightarrow>
          (case find (writes_to st d) (rev objs) of
             None \<Rightarrow> data_materials (st d)
           | Some ob \<Rightarrow> [the (mats (the (match_mesh (obj_name ob))))]))"
  using assign_materials_store[OF assms] by (simp add: slots_def split: option.splits)

text \<open>
  Claim C10, as amended. Material slots live on the datablock \<open>obj.data\<close>, so what
  the loop does to an object is decided by the objects that share its datablock. Given a
  dict with a material for every material type of the table (as the one \<open>main\<close> builds):
  the slots of an object that is not a mesh are untouched; so are the slots of any
  object, in particular of a mesh whose name matches no key, when no mesh object with a
  matching name shares its datablock. A mesh with a matching name ends with exactly one
  slot, holding the material created for the match of a mesh object that shares its
  datablock: the last such object in iteration order, hence the material of its own
  match when all such objects match the same material type.
\<close>

theorem assign_materials_effect:
  assumes "snd ` set MESH_MATERIAL_MAP \<subseteq> dom mats"
  shows
    "(obj_type st obj \<noteq> ''MESH''
        \<longrightarrow> slots (fst (assign_materials mats objs (st, out))) obj = slots st obj)
     \<and> ((\<forall>ob \<in> set objs. obj_type st ob = ''MESH'' \<and> match_mesh (obj_name ob) \<noteq> None
                          \<longrightarrow> obj_data ob \<noteq> obj_data obj)
        \<longrightarrow> slots (fst (assign_materials mats objs (st, out))) obj = slots st obj)
     \<and> (obj \<in> set objs \<and> obj_type st obj = ''MESH'' \<and> match_mesh (obj_name obj) = Some mt
        \<longrightarrow> (\<exists>ob \<in> set objs. \<exists>mt'.
               obj_data ob = obj_data obj \<and> obj_type st ob = ''MESH''
               \<and> match_mesh (obj_name ob) = Some mt'
               \<and> slots (fst (assign_materials mats objs (st, out))) obj = [the (mats mt')]))
     \<and> (obj \<in> set objs \<and> obj_type st obj = ''MESH'' \<and> match_mesh (obj_name obj) = Some mt
         \<and> (\<forall>ob \<in> set objs. obj_data ob = obj_data obj \<and> obj_type st ob = ''MESH''
                             \<and> match_mesh (obj_name ob) \<noteq> None
                          \<longrightarrow> match_mesh (obj_name ob) = Some mt)
        \<longrightarrow> slots (fst (assign_materials mats objs (st, out))) obj = [the (mats mt)])
     \<and> slots (fst (assign_materials mats objs (st, out))) obj =
         (case obj_data obj of
            None \<Rightarrow> []
          | Some d \<Rightarrow>
              (case find (writes_to st d) (rev objs) of
                 None \<Rightarrow> data_materials (st d)
               | Some ob \<Rightarrow> [the (mats (the (match_mesh (obj_name ob))))]))"
proof -
  let ?st' = "fst (assign_materials mats objs (st, out))"
  note sl = slots_assign_materials[OF assms, of objs st out obj]
  have frame: "slots ?st' obj = slots st obj"
    if "\<forall>ob \<in> set objs. obj_type st ob = ''MESH'' \<and> match_mesh (obj_name ob) \<noteq> None
                          \<longrightarrow> obj_data ob \<noteq> obj_data obj"
  proof (cases "obj_data obj")
    case None
    then show ?thesis using sl by (simp add: slots_def)
  next
    case (Some d)
    have "find (writes_to st d) (rev objs) = None"
      using that Some by (auto simp: find_None_iff writes_to_def)
    then show ?thesis using sl Some by (simp add: slots_def)
  qed
  have 1: "obj_type st obj \<noteq> ''MESH'' \<longrightarrow> slots ?st' obj = slots st obj"
  proof
    assume nm: "obj_type st obj \<noteq> ''MESH''"
    have "\<forall>ob \<in> set objs. obj_type st ob = ''MESH'' \<and> match_mesh (obj_name ob) \<noteq> None
                          \<longrightarrow> obj_data ob \<noteq> obj_data obj"
      using nm by (auto simp: obj_type_def split: option.splits)
    then show "slots ?st' obj = slots st obj" by (rule frame)
  qed
  have matched: "\<exists>ob. find (writes_to st d) (rev objs) = Some ob \<and> ob \<in> set objs \<and> writes_to st d ob"
    if "obj \<in> set objs" "writes_to st d obj" for d
  proof -
    have "find (writes_to st d) (rev objs) \<noteq> None"
      using that by (auto simp: find_None_iff)
    then obtain ob where ob: "find (writes_to st d) (rev objs) = Some ob" by blast
    then have "ob \<in> set objs \<and> writes_to st d ob"
      using find_SomeD[of "writes_to st d" "rev objs" ob] by simp
    then show ?thesis using ob by simp
  qed
  have 3: "obj \<in> set objs \<and> obj_type st obj = ''MESH'' \<and> match_mesh (obj_name obj) = Some mt
        \<longrightarrow> (\<exists>ob \<in> set objs. \<exists>mt'.
               obj_data ob = obj_data obj \<and> obj_type st ob = ''MESH''
               \<and> match_mesh (obj_name ob) = Some mt'
               \<and> slots ?st' obj = [the (mats mt')])"
  proof
    assume a: "obj \<in> set objs \<and> obj_type st obj = ''MESH'' \<and> match_mesh (obj_name obj) = Some mt"
    then obtain d where d: "obj_data obj = Some d"
      by (cases "obj_data obj") (auto simp: obj_type_def)
    then have "writes_to st d obj" using a by (simp add: writes_to_def)
    then obtain ob where ob: "find (writes_to st d) (rev objs) = Some ob" "ob \<in> set objs"
      "writes_to st d ob"
      using matched a by blast
    then obtain mt' where mt': "match_mesh (obj_name ob) = Some mt'"
      by (auto simp: writes_to_def)
    have "slots ?st' obj = [the (mats mt')]" using sl d ob(1) mt' by simp
    then show "\<exists>ob \<in> set objs. \<exists>mt'.
               obj_data ob = obj_data obj \<and> obj_type st ob = ''MESH''
               \<and> match_mesh (obj_name ob) = Some mt'
               \<and> slots ?st' obj = [the (mats mt')]"
      using ob(2,3) d mt' by (auto simp: writes_to_def)
  qed
  have 4: "obj \<in> set objs \<and> obj_type st obj = ''MESH'' \<and> match_mesh (obj_name obj) = Some mt
         \<and> (\<forall>ob \<in> set objs. obj_data ob = obj_data obj \<and> obj_type st ob = ''MESH''
                             \<and> match_mesh (obj_name ob) \<noteq> None
                          \<longrightarrow> match_mesh (obj_name ob) = Some mt)
        \<longrightarrow> slots ?st' obj = [the (mats mt)]"
  proof
    assume a: "obj \<in> set objs \<and> obj_type st obj = ''MESH'' \<and> match_mesh (obj_name obj) = Some mt
         \<and> (\<forall>ob \<in> set objs. obj_data ob = obj_data obj \<and> obj_type st ob = ''MESH''
                             \<and> match_mesh (obj_name ob) \<noteq> None
                          \<longrightarrow> match_mesh (obj_name ob) = Some mt)"
    then have pre: "obj \<in> set objs \<and> obj_type st obj = ''MESH''
        \<and> match_mesh (obj_name obj) = Some mt"
      by simp
    obtain ob mt' where ob: "ob \<in> set objs" "obj_data ob = obj_data obj"
      "obj_type st ob = ''MESH''" "match_mesh (obj_name ob) = Some mt'"
      "slots ?st' obj = [the (mats mt')]"
      using mp[OF 3 pre] by blast
    have "match_mesh (obj_name ob) = Some mt" using a ob(1-4) by simp
    then have "mt' = mt" using ob(4) by simp
    then show "slots ?st' obj = [the (mats mt)]" using ob(5) by simp
  qed
  have 2: "(\<forall>ob \<in> set objs. obj_type st ob = ''MESH'' \<and> match_mesh (obj_name ob) \<noteq> None
                          \<longrightarrow> obj_data ob \<noteq> obj_data obj)
        \<longrightarrow> slots ?st' obj = slots st obj"
    using frame by (rule impI)
  show ?thesis by (rule conjI[OF 1 conjI[OF 2 conjI[OF 3 conjI[OF 4 sl]]]])
qed

lemma sample_matches:
  "match_mesh ''A_Skin_Face'' = Some ''mother_skin''"
  "match_mesh ''B_Hair_Back'' = Some ''hair''"
  "match_mesh ''C_Cube'' = None"
  "match_mesh ''B_Sun'' = None"
  by code_simp+

lemma sample_scenes_sorted:
  "sorted_wrt str_less (map obj_name shared_objects)"
  "sorted_wrt str_less (map (lower \<circ> obj_name) shared_objects)"
  "sorted_wrt str_less (map obj_name separate_objects)"
  "sorted_wrt str_less (map (lower \<circ> obj_name) separate_objects)"
  by code_simp+

lemma sample_materials_dom: "snd ` set MESH_MATERIAL_MAP \<subseteq> dom sample_materials"
proof -
  have "dom sample_materials = fst ` set COLORS"
    by (simp add: sample_materials_def dom_map_of_conv_image_fst image_image case_prod_unfold)
  then show ?thesis using table_values_in_COLORS by simp
qed

lemma sample_materials_values:
  "sample_materials ''mother_skin'' = Some ''PBR_mother_skin''"
  "sample_materials ''hair'' = Some ''PBR_hair''"
  by (simp_all add: sample_materials_def COLORS_def)

text \<open>
  Claim C10 as stated fails where objects share a datablock. The scene has three mesh
  objects on datablock 0, visited in the order of their names: \<open>A_Skin_Face\<close>,
  \<open>B_Hair_Back\<close>, \<open>C_Cube\<close>. \<open>C_Cube\<close> matches no key and yet its slot is
  replaced, and \<open>A_Skin_Face\<close>, matched to \<open>mother_skin\<close>, ends with the material of
  \<open>hair\<close>, which the later iteration for \<open>B_Hair_Back\<close> wrote to the shared datablock.
\<close>

theorem shared_datablock_counterexample:
  "shared_objects =
     [\<lparr>obj_name = ''A_Skin_Face'', obj_data = Some 0\<rparr>,
      \<lparr>obj_name = ''B_Hair_Back'', obj_data = Some 0\<rparr>,
      \<lparr>obj_name = ''C_Cube'', obj_data = Some 0\<rparr>]
   \<and> sorted_wrt str_less (map obj_name shared_objects)
   \<and> sorted_wrt str_less (map (lower \<circ> obj_name) shared_objects)
   \<and> obj_type (sample_store [''old'']) \<lparr>obj_name = ''C_Cube'', obj_data = Some 0\<rparr> = ''MESH''
   \<and> match_mesh ''C_Cube'' = None
   \<and> slots (sample_store [''old'']) \<lparr>obj_name = ''C_Cube'', obj_data = Some 0\<rparr> = [''old'']
   \<and> slots (fst (assign_materials sample_materials shared_objects (sample_store [''old''], [])))
        \<lparr>obj_name = ''C_Cube'', obj_data = Some 0\<rparr> = [''PBR_hair'']
   \<and> match_mesh ''A_Skin_Face'' = Some ''mother_skin''
   \<and> sample_materials ''mother_skin'' = Some ''PBR_mother_skin''
   \<and> slots (fst (assign_materials sample_materials shared_objects (sample_store [''old''], [])))
        \<lparr>obj_name = ''A_Skin_Face'', obj_data = Some 0\<rparr> = [''PBR_hair'']"
  using sample_scenes_sorted(1,2)
  by (simp add: shared_objects_def sample_store_def sample_matches sample_materials_values
      obj_type_def slots_def)

theorem assign_materials_effect_witness:
  "slots (fst (assign_materials sample_materials separate_objects (sample_store [''old''], [])))
        \<lparr>obj_name = ''A_Skin_Face'', obj_data = Some 2\<rparr> = [''PBR_mother_skin'']
   \<and> slots (fst (assign_materials sample_materials separate_objects (sample_store [''old''], [])))
        \<lparr>obj_name = ''B_Sun'', obj_data = Some 1\<rparr> = [''old'']
   \<and> slots (fst (assign_materials sample_materials separate_objects (sample_store [''old''], [])))
        \<lparr>obj_name = ''C_Cube'', obj_data = Some 3\<rparr> = [''old'']"
proof -
  let ?st' = "fst (assign_materials sample_materials separate_objects (sample_store [''old''], []))"
  let ?skin = "\<lparr>obj_name = ''A_Skin_Face'', obj_data = Some 2\<rparr>"
  let ?sun = "\<lparr>obj_name = ''B_Sun'', obj_data = Some 1\<rparr>"
  let ?cube = "\<lparr>obj_name = ''C_Cube'', obj_data = Some 3\<rparr>"
  note eff = assign_materials_effect[OF sample_materials_dom,
      of "sample_store [''old'']" _ separate_objects "[]" "''mother_skin''"]
  have types: "obj_type (sample_store [''old'']) ?skin = ''MESH''" "obj_type (sample_store [''old'']) ?sun \<noteq> ''MESH''"
    "obj_type (sample_store [''old'']) ?cube = ''MESH''"
    by (simp_all add: obj_type_def sample_store_def)
  have "?skin \<in> set separate_objects \<and> obj_type (sample_store [''old'']) ?skin = ''MESH''
        \<and> match_mesh (obj_name ?skin) = Some ''mother_skin''
        \<and> (\<forall>ob \<in> set separate_objects. obj_data ob = obj_data ?skin
               \<and> obj_type (sample_store [''old'']) ob = ''MESH'' \<and> match_mesh (obj_name ob) \<noteq> None
             \<longrightarrow> match_mesh (obj_name ob) = Some ''mother_skin'')"
    using types by (simp add: separate_objects_def sample_matches)
  then have 1: "slots ?st' ?skin = [the (sample_materials ''mother_skin'')]"
    using eff[of ?skin] by blast
  have 2: "slots ?st' ?sun = slots (sample_store [''old'']) ?sun"
    using eff[of ?sun] types(2) by blast
  have "\<forall>ob \<in> set separate_objects.
          obj_type (sample_store [''old'']) ob = ''MESH'' \<and> match_mesh (obj_name ob) \<noteq> None
          \<longrightarrow> obj_data ob \<noteq> obj_data ?cube"
    by (simp add: separate_objects_def sample_matches)
  then have 3: "slots ?st' ?cube = slots (sample_store [''old'']) ?cube"
    using eff[of ?cube] by blast
  show ?thesis
    using 1 2 3 by (simp add: sample_materials_values slots_def sample_store_def)
qed

section \<open>Meshes named with skin\<close>

lemma assign_materials_never_baby_skin:
  "SlotAppended d ''baby_skin'' \<in> set (snd (assign_materials mats objs (st, out)))
     \<Longrightarrow> SlotAppended d ''baby_skin'' \<in> set out"
proof (induction objs arbitrary: st out)
  case Nil
  then show ?case by simp
next
  case (Cons obj rest)
  have nb: "match_mesh (obj_name obj) \<noteq> Some ''baby_skin''"
    by (rule match_mesh_never_baby_skin)
  obtain st1 ex where step: "assign_materials mats (obj # rest) (st, out)
        = assign_materials mats rest (st1, out @ ex)"
      and ex: "SlotAppended d ''baby_skin'' \<notin> set ex"
  proof (cases "match_mesh (obj_name obj)")
    case None
    then have "assign_materials mats (obj # rest) (st, out)
        = assign_materials mats rest (st, out @ [])" by simp
    then show ?thesis by (rule that) simp
  next
    case (Some mt)
    then have mt: "mt \<noteq> ''baby_skin''" using nb by simp
    show ?thesis
    proof (cases "obj_type st obj \<noteq> ''MESH''")
      case True
      then have "assign_materials mats (obj # rest) (st, out)
        = assign_materials mats rest (st, out @ [])" by simp
      then show ?thesis by (rule that) simp
    next
      case False
      show ?thesis
      proof (cases "mt \<noteq> [] \<and> mats mt \<noteq> None \<and> obj_data obj \<noteq> None")
        case True
        then obtain m dd where "mats mt = Some m" "obj_data obj = Some dd" by auto
        then have "assign_materials mats (obj # rest) (st, out)
          = assign_materials mats rest
              (st(dd := (st dd)\<lparr>data_materials := [m]\<rparr>),
               out @ [Printed (''      '' @ obj_name obj @ '' -> '' @ mt),
                      SlotsCleared dd, SlotAppended dd mt])"
          using Some False True by (simp add: Let_def)
        moreover have "SlotAppended d ''baby_skin'' \<notin>
            set [Printed (''      '' @ obj_name obj @ '' -> '' @ mt),
                 SlotsCleared dd, SlotAppended dd mt]"
          using mt by auto
        ultimately show ?thesis by (rule that)
      next
        case c: False
        have "assign_materials mats (obj # rest) (st, out)
          = assign_materials mats rest
              (st, out @ [Printed (''      '' @ obj_name obj @ '' -> '' @ mt)])"
          using Some False c by (auto simp: Let_def split: option.splits)
        moreover have "SlotAppended d ''baby_skin'' \<notin>
            set [Printed (''      '' @ obj_name obj @ '' -> '' @ mt)]" by simp
        ultimately show ?thesis by (rule that)
      qed
    qed
  qed
  have "SlotAppended d ''baby_skin'' \<in> set (out @ ex)"
    using Cons.prems unfolding step by (rule Cons.IH)
  then show ?case using ex by simp
qed

lemma slots_agreeing_matches:
  assumes dom: "snd ` set MESH_MATERIAL_MAP \<subseteq> dom mats"
    and obj: "obj \<in> set objs" "obj_type st obj = ''MESH''" "match_mesh (obj_name obj) = Some mt"
    and agree: "\<forall>ob \<in> set objs. obj_data ob = obj_data obj \<and> obj_type st ob = ''MESH''
                             \<and> match_mesh (obj_name ob) \<noteq> None
                          \<longrightarrow> match_mesh (obj_name ob) = Some mt"
  shows "slots (fst (assign_materials mats objs (st, out))) obj = [the (mats mt)]"
proof -
  obtain d where d: "obj_data obj = Some d"
    using obj(2) by (cases "obj_data obj") (auto simp: obj_type_def)
  then have "writes_to st d obj" using obj by (simp add: writes_to_def)
  then have "find (writes_to st d) (rev objs) \<noteq> None"
    using obj(1) by (auto simp: find_None_iff)
  then obtain ob where ob: "find (writes_to st d) (rev objs) = Some ob" by blast
  then have w: "writes_to st d ob" "ob \<in> set objs"
    using find_SomeD[of "writes_to st d" "rev objs" ob] by simp_all
  then have "match_mesh (obj_name ob) = Some mt"
    using agree d by (simp add: writes_to_def)
  then show ?thesis
    using slots_assign_materials[OF dom, of objs st out obj] d ob by simp
qed

lemma matched_mesh_iteration:
  assumes "match_mesh (obj_name obj) = Some mt" "mt \<noteq> []"
    and "obj_type st obj = ''MESH''" "obj_data obj = Some d" "mats mt = Some m"
  shows "assign_materials mats (obj # rest) (st, out)
         = assign_materials mats rest
             (st(d := (st d)\<lparr>data_materials := [m]\<rparr>),
              out @ [Printed (''      '' @ obj_name obj @ '' -> '' @ mt),
                     SlotsCleared d, SlotAppended d mt])"
  using assms by (simp add: Let_def)

text \<open>
  Claim C3. The key \<open>skin\<close> (entry 11, material \<open>mother_skin\<close>) stands before the keys
  \<open>baby_skin\<close> and \<open>Baby_Skin\<close> (entries 15 and 16), and the ten keys the claim lists
  are, ignoring case, the keys of the entries before it. So a name that contains
  \<open>skin\<close> and none of the listed keys, ignoring case, is matched to \<open>mother_skin\<close>, as
  are the names \<open>baby_skin\<close> and \<open>Baby_Skin\<close>, and no name at all is matched to
  \<open>baby_skin\<close>. For a mesh object with such a name the iteration of the loop assigns
  the material: it clears the slots of the object's datablock and appends the
  \<open>mother_skin\<close> material, so that right after its iteration the object has exactly
  that slot; at the end of the loop it still has exactly that slot when every mesh
  object with a matching name on the same datablock is matched to \<open>mother_skin\<close> too
  (in particular when the datablock is not shared). The loop never appends the
  \<open>baby_skin\<close> material to any datablock.
\<close>

theorem skin_precedes_baby_skin:
  "MESH_MATERIAL_MAP ! 11 = (''skin'', ''mother_skin'')
   \<and> MESH_MATERIAL_MAP ! 15 = (''baby_skin'', ''baby_skin'')
   \<and> MESH_MATERIAL_MAP ! 16 = (''Baby_Skin'', ''baby_skin'')
   \<and> set (map (lower \<circ> fst) (take 11 MESH_MATERIAL_MAP))
       = set (map lower [''saree'', ''Saree'', ''cloth'', ''Cloth'', ''garment'', ''hair'',
                         ''head_hair'', ''mother_hair'', ''mother_skin'', ''Mother_Skin''])
   \<and> (sublist ''skin'' (lower n)
        \<and> (\<forall>k \<in> set [''saree'', ''Saree'', ''cloth'', ''Cloth'', ''garment'', ''hair'',
                       ''head_hair'', ''mother_hair'', ''mother_skin'', ''Mother_Skin''].
              \<not> sublist (lower k) (lower n))
        \<longrightarrow> match_mesh n = Some ''mother_skin'')
   \<and> match_mesh ''baby_skin'' = Some ''mother_skin''
   \<and> match_mesh ''Baby_Skin'' = Some ''mother_skin''
   \<and> match_mesh n \<noteq> Some ''baby_skin''
   \<and> (sublist ''skin'' (lower (obj_name obj))
        \<and> (\<forall>k \<in> set [''saree'', ''Saree'', ''cloth'', ''Cloth'', ''garment'', ''hair'',
                       ''head_hair'', ''mother_hair'', ''mother_skin'', ''Mother_Skin''].
              \<not> sublist (lower k) (lower (obj_name obj)))
        \<and> obj_type st obj = ''MESH'' \<and> obj_data obj = Some d
        \<and> mats ''mother_skin'' = Some m
        \<longrightarrow> assign_materials mats (obj # rest) (st, out)
             = assign_materials mats rest
                 (st(d := (st d)\<lparr>data_materials := [m]\<rparr>),
                  out @ [Printed (''      '' @ obj_name obj @ '' -> mother_skin''),
                         SlotsCleared d, SlotAppended d ''mother_skin''])
            \<and> slots (fst (assign_materials mats [obj] (st, out))) obj = [m])
   \<and> (sublist ''skin'' (lower (obj_name obj))
        \<and> (\<forall>k \<in> set [''saree'', ''Saree'', ''cloth'', ''Cloth'', ''garment'', ''hair'',
                       ''head_hair'', ''mother_hair'', ''mother_skin'', ''Mother_Skin''].
              \<not> sublist (lower k) (lower (obj_name obj)))
        \<and> obj_type st obj = ''MESH'' \<and> obj \<in> set objs
        \<and> snd ` set MESH_MATERIAL_MAP \<subseteq> dom mats
        \<and> (\<forall>ob \<in> set objs. obj_data ob = obj_data obj \<and> obj_type st ob = ''MESH''
                             \<and> match_mesh (obj_name ob) \<noteq> None
                          \<longrightarrow> match_mesh (obj_name ob) = Some ''mother_skin'')
        \<longrightarrow> slots (fst (assign_materials mats objs (st, out))) obj
             = [the (mats ''mother_skin'')])
   \<and> SlotAppended d ''baby_skin'' \<notin> set (snd (assign_materials mats objs (st, [])))"
proof -
  have lit: "match_mesh ''baby_skin'' = Some ''mother_skin''"
       "match_mesh ''Baby_Skin'' = Some ''mother_skin''"
    by code_simp+
  have name: "sublist ''skin'' (lower n)
        \<and> (\<forall>k \<in> set [''saree'', ''Saree'', ''cloth'', ''Cloth'', ''garment'', ''hair'',
                       ''head_hair'', ''mother_hair'', ''mother_skin'', ''Mother_Skin''].
              \<not> sublist (lower k) (lower n))
        \<longrightarrow> match_mesh n = Some ''mother_skin''"
    using match_mesh_skin[of n] by blast
  have iter: "sublist ''skin'' (lower (obj_name obj))
        \<and> (\<forall>k \<in> set [''saree'', ''Saree'', ''cloth'', ''Cloth'', ''garment'', ''hair'',
                       ''head_hair'', ''mother_hair'', ''mother_skin'', ''Mother_Skin''].
              \<not> sublist (lower k) (lower (obj_name obj)))
        \<and> obj_type st obj = ''MESH'' \<and> obj_data obj = Some d
        \<and> mats ''mother_skin'' = Some m
        \<longrightarrow> assign_materials mats (obj # rest) (st, out)
             = assign_materials mats rest
                 (st(d := (st d)\<lparr>data_materials := [m]\<rparr>),
                  out @ [Printed (''      '' @ obj_name obj @ '' -> mother_skin''),
                         SlotsCleared d, SlotAppended d ''mother_skin''])
            \<and> slots (fst (assign_materials mats [obj] (st, out))) obj = [m]"
  proof
    assume a: "sublist ''skin'' (lower (obj_name obj))
        \<and> (\<forall>k \<in> set [''saree'', ''Saree'', ''cloth'', ''Cloth'', ''garment'', ''hair'',
                       ''head_hair'', ''mother_hair'', ''mother_skin'', ''Mother_Skin''].
              \<not> sublist (lower k) (lower (obj_name obj)))
        \<and> obj_type st obj = ''MESH'' \<and> obj_data obj = Some d
        \<and> mats ''mother_skin'' = Some m"
    then have mm: "match_mesh (obj_name obj) = Some ''mother_skin''"
      using match_mesh_skin[of "obj_name obj"] by blast
    have ne: "''mother_skin'' \<noteq> []" by simp
    have step: "assign_materials mats (obj # rs) (st, out)
             = assign_materials mats rs
                 (st(d := (st d)\<lparr>data_materials := [m]\<rparr>),
                  out @ [Printed (''      '' @ obj_name obj @ '' -> mother_skin''),
                         SlotsCleared d, SlotAppended d ''mother_skin''])" for rs
      using matched_mesh_iteration[OF mm ne, of st d mats m rs out] a by simp
    have "slots (fst (assign_materials mats [obj] (st, out))) obj = [m]"
      unfolding step[of "[]"] using a by (simp add: slots_def)
    then show "assign_materials mats (obj # rest) (st, out)
             = assign_materials mats rest
                 (st(d := (st d)\<lparr>data_materials := [m]\<rparr>),
                  out @ [Printed (''      '' @ obj_name obj @ '' -> mother_skin''),
                         SlotsCleared d, SlotAppended d ''mother_skin''])
            \<and> slots (fst (assign_materials mats [obj] (st, out))) obj = [m]"
      using step[of rest] by simp
  qed
  have final: "sublist ''skin'' (lower (obj_name obj))
        \<and> (\<forall>k \<in> set [''saree'', ''Saree'', ''cloth'', ''Cloth'', ''garment'', ''hair'',
                       ''head_hair'', ''mother_hair'', ''mother_skin'', ''Mother_Skin''].
              \<not> sublist (lower k) (lower (obj_name obj)))
        \<and> obj_type st obj = ''MESH'' \<and> obj \<in> set objs
        \<and> snd ` set MESH_MATERIAL_MAP \<subseteq> dom mats
        \<and> (\<forall>ob \<in> set objs. obj_data ob = obj_data obj \<and> obj_type st ob = ''MESH''
                             \<and> match_mesh (obj_name ob) \<noteq> None
                          \<longrightarrow> match_mesh (obj_name ob) = Some ''mother_skin'')
        \<longrightarrow> slots (fst (assign_materials mats objs (st, out))) obj
             = [the (mats ''mother_skin'')]"
  proof
    assume a: "sublist ''skin'' (lower (obj_name obj))
        \<and> (\<forall>k \<in> set [''saree'', ''Saree'', ''cloth'', ''Cloth'', ''garment'', ''hair'',
                       ''head_hair'', ''mother_hair'', ''mother_skin'', ''Mother_Skin''].
              \<not> sublist (lower k) (lower (obj_name obj)))
        \<and> obj_type st obj = ''MESH'' \<and> obj \<in> set objs
        \<and> snd ` set MESH_MATERIAL_MAP \<subseteq> dom mats
        \<and> (\<forall>ob \<in> set objs. obj_data ob = obj_data obj \<and> obj_type st ob = ''MESH''
                             \<and> match_mesh (obj_name ob) \<noteq> None
                          \<longrightarrow> match_mesh (obj_name ob) = Some ''mother_skin'')"
    then have mm: "match_mesh (obj_name obj) = Some ''mother_skin''"
      using match_mesh_skin[of "obj_name obj"] by blast
    have d: "snd ` set MESH_MATERIAL_MAP \<subseteq> dom mats" using a by simp
    have o: "obj \<in> set objs" "obj_type st obj = ''MESH''" using a by simp_all
    have ag: "\<forall>ob \<in> set objs. obj_data ob = obj_data obj \<and> obj_type st ob = ''MESH''
                             \<and> match_mesh (obj_name ob) \<noteq> None
                          \<longrightarrow> match_mesh (obj_name ob) = Some ''mother_skin''"
      using a by simp
    show "slots (fst (assign_materials mats objs (st, out))) obj = [the (mats ''mother_skin'')]"
      by (rule slots_agreeing_matches[OF d o mm ag])
  qed
  have never: "SlotAppended d ''baby_skin'' \<notin> set (snd (assign_materials mats objs (st, [])))"
    using assign_materials_never_baby_skin[of d mats objs st "[]"] by auto
  show ?thesis
    by (intro conjI earlier_keys name lit match_mesh_never_baby_skin iter final never)
qed

theorem skin_precedes_baby_skin_witness:
  "sublist ''skin'' (lower ''Baby_Skin_01'')
   \<and> match_mesh ''Baby_Skin_01'' = Some ''mother_skin''
   \<and> match_mesh ''Baby_Skin_01'' \<noteq> Some ''baby_skin''
   \<and> slots (fst (assign_materials sample_materials
                   [\<lparr>obj_name = ''Baby_Skin_01'', obj_data = Some 2\<rparr>]
                   (sample_store [''old''], [])))
        \<lparr>obj_name = ''Baby_Skin_01'', obj_data = Some 2\<rparr> = [''PBR_mother_skin'']
   \<and> slots (fst (assign_materials sample_materials
                   [\<lparr>obj_name = ''Baby_Skin_01'', obj_data = Some 2\<rparr>,
                    \<lparr>obj_name = ''C_Cube'', obj_data = Some 3\<rparr>]
                   (sample_store [''old''], [])))
        \<lparr>obj_name = ''Baby_Skin_01'', obj_data = Some 2\<rparr> = [''PBR_mother_skin'']"
proof -
  let ?baby = "\<lparr>obj_name = ''Baby_Skin_01'', obj_data = Some 2\<rparr>"
  let ?objs = "[?baby, \<lparr>obj_name = ''C_Cube'', obj_data = Some 3\<rparr>]"
  note inst = skin_precedes_baby_skin[where n = "''Baby_Skin_01''" and obj = ?baby
      and st = "sample_store [''old'']" and d = 2 and mats = sample_materials
      and m = "''PBR_mother_skin''" and rest = "[]" and out = "[]" and objs = ?objs]
  have 1: "sublist ''skin'' (lower ''Baby_Skin_01'')" by code_simp
  have 2: "\<forall>k \<in> set [''saree'', ''Saree'', ''cloth'', ''Cloth'', ''garment'', ''hair'',
                       ''head_hair'', ''mother_hair'', ''mother_skin'', ''Mother_Skin''].
              \<not> sublist (lower k) (lower ''Baby_Skin_01'')"
    by code_simp
  have m: "match_mesh ''Baby_Skin_01'' = Some ''mother_skin''"
    using 1 2 inst by blast
  have h: "sublist ''skin'' (lower (obj_name ?baby))
        \<and> (\<forall>k \<in> set [''saree'', ''Saree'', ''cloth'', ''Cloth'', ''garment'', ''hair'',
                       ''head_hair'', ''mother_hair'', ''mother_skin'', ''Mother_Skin''].
              \<not> sublist (lower k) (lower (obj_name ?baby)))
        \<and> obj_type (sample_store [''old'']) ?baby = ''MESH'' \<and> obj_data ?baby = Some 2
        \<and> sample_materials ''mother_skin'' = Some ''PBR_mother_skin''"
    using 1 2 by (simp add: obj_type_def sample_store_def sample_materials_values)
  have 3: "slots (fst (assign_materials sample_materials [?baby] (sample_store [''old''], [])))
        ?baby = [''PBR_mother_skin'']"
    using h inst by blast
  have g: "sublist ''skin'' (lower (obj_name ?baby))
        \<and> (\<forall>k \<in> set [''saree'', ''Saree'', ''cloth'', ''Cloth'', ''garment'', ''hair'',
                       ''head_hair'', ''mother_hair'', ''mother_skin'', ''Mother_Skin''].
              \<not> sublist (lower k) (lower (obj_name ?baby)))
        \<and> obj_type (sample_store [''old'']) ?baby = ''MESH'' \<and> ?baby \<in> set ?objs
        \<and> snd ` set MESH_MATERIAL_MAP \<subseteq> dom sample_materials
        \<and> (\<forall>ob \<in> set ?objs. obj_data ob = obj_data ?baby
               \<and> obj_type (sample_store [''old'']) ob = ''MESH''
               \<and> match_mesh (obj_name ob) \<noteq> None
             \<longrightarrow> match_mesh (obj_name ob) = Some ''mother_skin'')"
    using 1 2 m sample_materials_dom
    by (simp add: obj_type_def sample_store_def sample_matches)
  have 4: "slots (fst (assign_materials sample_materials ?objs (sample_store [''old''], [])))
        ?baby = [the (sample_materials ''mother_skin'')]"
    using g inst by blast
  show ?thesis using 1 m 3 4 by (simp add: sample_materials_values)
qed

section \<open>A run of main without failures\<close>

lemma call_ok:
  "raises env (trace w) c = None \<Longrightarrow> call env c w = (Inr (), w\<lparr>trace := trace w @ [Called c]\<rparr>)"
  by (simp add: call_def)

lemma tables_defined:
  assumes "mt \<in> fst ` set COLORS"
  shows "map_of COLORS mt \<noteq> None" "map_of ROUGHNESS mt \<noteq> None" "map_of METALLIC mt \<noteq> None"
proof -
  have "fst ` set ROUGHNESS = fst ` set COLORS" "fst ` set METALLIC = fst ` set COLORS"
    by (simp_all add: ROUGHNESS_def METALLIC_def COLORS_def)
  then show "map_of COLORS mt \<noteq> None" "map_of ROUGHNESS mt \<noteq> None" "map_of METALLIC mt \<noteq> None"
    using assms by (simp_all add: map_of_eq_None_iff)
qed

lemma generate_textures_ok:
  assumes nr: "\<forall>tr c. raises env tr c = None"
    and keys: "set keys \<subseteq> fst ` set COLORS"
  shows "\<exists>tex'. (\<forall>w. generate_textures env keys tex w
            = (Inr tex', w\<lparr>trace := trace w @ concat (map texture_events keys)\<rparr>))
          \<and> (\<forall>k. tex k \<noteq> None \<longrightarrow> tex' k \<noteq> None)
          \<and> (\<forall>mt \<in> set keys. tex' (mt @ ''_basecolor'') \<noteq> None
                \<and> tex' (mt @ ''_normal'') \<noteq> None \<and> tex' (mt @ ''_roughness'') \<noteq> None)"
  using keys
proof (induction keys arbitrary: tex)
  case Nil
  show ?case by (simp add: ret_def)
next
  case (Cons mt rest)
  from Cons.prems have mt: "mt \<in> fst ` set COLORS" and rest: "set rest \<subseteq> fst ` set COLORS"
    by simp_all
  obtain color rough where c: "map_of COLORS mt = Some color" "map_of ROUGHNESS mt = Some rough"
    using tables_defined[OF mt] by auto
  define bc where "bc = \<lparr>img_name = mt @ ''_basecolor'', img_width = 2048, img_height = 2048,
          img_fill = SolidColor color\<rparr>"
  define n where "n = \<lparr>img_name = mt @ ''_normal'', img_width = 2048, img_height = 2048,
          img_fill = NormalNoise 0.3\<rparr>"
  define r where "r = \<lparr>img_name = mt @ ''_roughness'', img_width = 2048, img_height = 2048,
          img_fill = RoughnessNoise rough 0.1\<rparr>"
  define tex1 where "tex1 = tex(mt @ ''_basecolor'' \<mapsto> bc, mt @ ''_normal'' \<mapsto> n,
                 mt @ ''_roughness'' \<mapsto> r)"
  have step: "generate_textures env (mt # rest) tex w
      = generate_textures env rest tex1 (w\<lparr>trace := trace w @ texture_events mt\<rparr>)" for w
    by (simp add: bind_def print_def getitem_def c ret_def create_simple_texture_def
        create_normal_map_def create_roughness_texture_def call_def nr texture_events_def
        tex1_def bc_def n_def r_def)
  obtain tex' where t: "\<forall>w. generate_textures env rest tex1 w
            = (Inr tex', w\<lparr>trace := trace w @ concat (map texture_events rest)\<rparr>)"
      "\<forall>k. tex1 k \<noteq> None \<longrightarrow> tex' k \<noteq> None"
      "\<forall>mt \<in> set rest. tex' (mt @ ''_basecolor'') \<noteq> None
                \<and> tex' (mt @ ''_normal'') \<noteq> None \<and> tex' (mt @ ''_roughness'') \<noteq> None"
    using Cons.IH[OF rest, of tex1] by blast
  have a: "\<forall>k. tex k \<noteq> None \<longrightarrow> tex1 k \<noteq> None" by (simp add: tex1_def)
  have b: "tex1 (mt @ ''_basecolor'') \<noteq> None" "tex1 (mt @ ''_normal'') \<noteq> None"
    "tex1 (mt @ ''_roughness'') \<noteq> None"
    by (simp_all add: tex1_def)
  have "\<forall>w. generate_textures env (mt # rest) tex w
            = (Inr tex', w\<lparr>trace := trace w @ concat (map texture_events (mt # rest))\<rparr>)"
    unfolding step using t(1) by simp
  moreover have "\<forall>k. tex k \<noteq> None \<longrightarrow> tex' k \<noteq> None" using a t(2) by blast
  moreover have "\<forall>m \<in> set (mt # rest). tex' (m @ ''_basecolor'') \<noteq> None
                \<and> tex' (m @ ''_normal'') \<noteq> None \<and> tex' (m @ ''_roughness'') \<noteq> None"
    using b t(2) t(3) by simp
  ultimately show ?case by blast
qed

lemma create_materials_ok:
  assumes nr: "\<forall>tr c. raises env tr c = None"
    and keys: "set keys \<subseteq> fst ` set COLORS"
    and tex: "\<forall>mt \<in> set keys. tex (mt @ ''_basecolor'') \<noteq> None
                \<and> tex (mt @ ''_normal'') \<noteq> None \<and> tex (mt @ ''_roughness'') \<noteq> None"
  shows "\<exists>mats'. (\<forall>w. create_materials env keys tex mats w
            = (Inr mats', w\<lparr>trace := trace w @ concat (map material_events keys)\<rparr>))
          \<and> dom mats' = dom mats \<union> set keys"
  using keys tex
proof (induction keys arbitrary: mats)
  case Nil
  show ?case by (simp add: ret_def)
next
  case (Cons mt rest)
  from Cons.prems have mt: "mt \<in> fst ` set COLORS" and rest: "set rest \<subseteq> fst ` set COLORS"
    by simp_all
  obtain color rough metal where c: "map_of COLORS mt = Some color"
      "map_of ROUGHNESS mt = Some rough" "map_of METALLIC mt = Some metal"
    using tables_defined[OF mt] by auto
  obtain bc n r where i: "tex (mt @ ''_basecolor'') = Some bc" "tex (mt @ ''_normal'') = Some n"
      "tex (mt @ ''_roughness'') = Some r"
    using Cons.prems(2) by auto
  define mats1 where "mats1 = mats(mt \<mapsto> pbr_material mt color rough metal
             [''basecolor'' \<mapsto> bc, ''normal'' \<mapsto> n, ''roughness'' \<mapsto> r])"
  have step: "create_materials env (mt # rest) tex mats w
      = create_materials env rest tex mats1 (w\<lparr>trace := trace w @ material_events mt\<rparr>)" for w
    by (simp add: bind_def print_def getitem_def c i ret_def create_pbr_material_def call_def nr
        material_events_def mats1_def)
  obtain mats' where t: "\<forall>w. create_materials env rest tex mats1 w
            = (Inr mats', w\<lparr>trace := trace w @ concat (map material_events rest)\<rparr>)"
      "dom mats' = dom mats1 \<union> set rest"
    using Cons.IH[OF rest, of mats1] Cons.prems(2) by auto
  have "\<forall>w. create_materials env (mt # rest) tex mats w
            = (Inr mats', w\<lparr>trace := trace w @ concat (map material_events (mt # rest))\<rparr>)"
    unfolding step using t(1) by simp
  moreover have "dom mats' = dom mats \<union> set (mt # rest)"
    using t(2) by (auto simp: mats1_def)
  ultimately show ?case by blast
qed

lemma main_ok:
  assumes nr: "\<forall>tr c. raises env tr c = None"
    and ex: "path_exists env INPUT_GLB"
  shows "\<exists>mats. dom mats = fst ` set COLORS
     \<and> (\<forall>w. main env w =
          (Inr (Some (abspath env OUTPUT_GLB)),
           w\<lparr>trace := trace w @ import_events
                   @ concat (map texture_events (map fst COLORS))
                   @ [Printed ''\<newline>[3/5] Creating and assigning PBR materials...'']
                   @ concat (map material_events (map fst COLORS))
                   @ [Printed ''\<newline>[4/5] Assigning materials to mesh objects...'']
                   @ snd (assign_materials mats (imported_objects env) (imported_store env, []))
                   @ export_events (abspath env OUTPUT_GLB),
              scene := fst (assign_materials mats (imported_objects env)
                              (imported_store env, []))\<rparr>))"
proof -
  have k: "set (map fst COLORS) \<subseteq> fst ` set COLORS" by simp
  obtain tex where tex: "\<forall>w. generate_textures env (map fst COLORS) Map.empty w
            = (Inr tex, w\<lparr>trace := trace w @ concat (map texture_events (map fst COLORS))\<rparr>)"
      "\<forall>mt \<in> set (map fst COLORS). tex (mt @ ''_basecolor'') \<noteq> None
                \<and> tex (mt @ ''_normal'') \<noteq> None \<and> tex (mt @ ''_roughness'') \<noteq> None"
    using generate_textures_ok[OF nr k, of Map.empty] by blast
  obtain mats where mats: "\<forall>w. create_materials env (map fst COLORS) tex Map.empty w
            = (Inr mats, w\<lparr>trace := trace w @ concat (map material_events (map fst COLORS))\<rparr>)"
      "dom mats = dom (Map.empty :: string \<rightharpoonup> material) \<union> set (map fst COLORS)"
    using create_materials_ok[OF nr k tex(2), of Map.empty] by blast
  have "main env w =
          (Inr (Some (abspath env OUTPUT_GLB)),
           w\<lparr>trace := trace w @ import_events
                   @ concat (map texture_events (map fst COLORS))
                   @ [Printed ''\<newline>[3/5] Creating and assigning PBR materials...'']
                   @ concat (map material_events (map fst COLORS))
                   @ [Printed ''\<newline>[4/5] Assigning materials to mesh objects...'']
                   @ snd (assign_materials mats (imported_objects env) (imported_store env, []))
                   @ export_events (abspath env OUTPUT_GLB),
              scene := fst (assign_materials mats (imported_objects env)
                              (imported_store env, []))\<rparr>)" for w
    unfolding main_def
    by (simp add: bind_def print_def call_def nr ex ret_def tex(1) mats(1) Let_def
        import_events_def export_events_def split: prod.splits)
  moreover have "dom mats = fst ` set COLORS" using mats(2) by simp
  ultimately show ?thesis by blast
qed

section \<open>Failures and the entry point\<close>



























lemma calls_of_append [simp]: "calls_of (a @ b) = calls_of a @ calls_of b"
  by (simp add: calls_of_def)

lemma calls_of_simps [simp]:
  "calls_of [] = []"
  "calls_of (Printed s # evs) = calls_of evs"
  "calls_of (Called c # evs) = c # calls_of evs"
  "calls_of (SlotsCleared d # evs) = calls_of evs"
  "calls_of (SlotAppended d mt # evs) = calls_of evs"
  "calls_of (TracebackPrinted # evs) = calls_of evs"
  by (simp_all add: calls_of_def)

lemma calls_of_assign_materials:
  "calls_of (snd (assign_materials mats objs (st, out))) = calls_of out"
  by (induction objs arbitrary: st out) (auto simp: Let_def split: option.splits)






















section \<open>The order of the pipeline\<close>

lemma COLORS_keys:
  "map fst COLORS = [''saree'', ''hair'', ''mother_skin'', ''baby_skin'', ''baby_hair'', ''base'']"
  by (simp add: COLORS_def)

lemma calls_of_texture_events:
  "calls_of (concat (map texture_events (map fst COLORS))) =
     concat (map (\<lambda>(mt, color).
        [CreateSimpleTexture 2048 2048 color (mt @ ''_basecolor''),
         CreateNormalMap 2048 2048 (mt @ ''_normal'') 0.3,
         CreateRoughnessTexture 2048 2048 (mt @ ''_roughness'') (the (map_of ROUGHNESS mt)) 0.1])
       COLORS)"
  by (simp add: COLORS_def texture_events_def)

lemma calls_of_material_events:
  "calls_of (concat (map material_events (map fst COLORS)))
     = map (\<lambda>(mt, color). CreatePbrMaterial mt) COLORS"
  by (simp add: COLORS_def material_events_def)

text \<open>
  Claim C8. When the input file exists and no call raises, the events of \<open>main\<close> fall
  into three parts. Before the assignment loop the calls are, in this order: the two
  operators that clear the scene, the import, the creation of the texture directory,
  then for each of the six material types of \<open>COLORS\<close>, in the table's order, a solid
  base-color image, a normal map and a roughness map (eighteen images), then the six
  PBR materials. The loop over the objects follows: it matches names and assigns
  materials and makes no call. After it come the selection and the export.
\<close>

theorem pipeline_order:
  assumes "path_exists env INPUT_GLB" and "\<forall>tr c. raises env tr c = None"
  shows "\<exists>before loop after mats.
      trace (snd (main env w)) = trace w @ before @ loop @ after
      \<and> calls_of before =
          [OpSelectAll, OpDelete, OpImportGltf INPUT_GLB, MakeDirs TEXTURE_DIR]
          @ concat (map (\<lambda>(mt, color).
              [CreateSimpleTexture 2048 2048 color (mt @ ''_basecolor''),
               CreateNormalMap 2048 2048 (mt @ ''_normal'') 0.3,
               CreateRoughnessTexture 2048 2048 (mt @ ''_roughness'')
                 (the (map_of ROUGHNESS mt)) 0.1])
             COLORS)
          @ map (\<lambda>(mt, color). CreatePbrMaterial mt) COLORS
      \<and> loop = snd (assign_materials mats (imported_objects env) (imported_store env, []))
      \<and> dom mats = fst ` set COLORS
      \<and> calls_of loop = []
      \<and> calls_of after = [OpSelectAll, OpExportGltf (abspath env OUTPUT_GLB)]
      \<and> scene (snd (main env w))
          = fst (assign_materials mats (imported_objects env) (imported_store env, []))
      \<and> fst (main env w) = Inr (Some (abspath env OUTPUT_GLB))
      \<and> map fst COLORS
          = [''saree'', ''hair'', ''mother_skin'', ''baby_skin'', ''baby_hair'', ''base'']"
proof -
  obtain mats where mats: "dom mats = fst ` set COLORS"
    and run: "\<forall>w. main env w =
          (Inr (Some (abspath env OUTPUT_GLB)),
           w\<lparr>trace := trace w @ import_events
                   @ concat (map texture_events (map fst COLORS))
                   @ [Printed ''\<newline>[3/5] Creating and assigning PBR materials...'']
                   @ concat (map material_events (map fst COLORS))
                   @ [Printed ''\<newline>[4/5] Assigning materials to mesh objects...'']
                   @ snd (assign_materials mats (imported_objects env) (imported_store env, []))
                   @ export_events (abspath env OUTPUT_GLB),
              scene := fst (assign_materials mats (imported_objects env)
                              (imported_store env, []))\<rparr>)"
    using main_ok[OF assms(2) assms(1)] by blast
  define before where "before = import_events
                   @ concat (map texture_events (map fst COLORS))
                   @ [Printed ''\<newline>[3/5] Creating and assigning PBR materials...'']
                   @ concat (map material_events (map fst COLORS))
                   @ [Printed ''\<newline>[4/5] Assigning materials to mesh objects...'']"
  define loop where
    "loop = snd (assign_materials mats (imported_objects env) (imported_store env, []))"
  define after where "after = export_events (abspath env OUTPUT_GLB)"
  have 1: "trace (snd (main env w)) = trace w @ before @ loop @ after"
    using run by (simp add: before_def loop_def after_def)
  have 2: "calls_of before =
          [OpSelectAll, OpDelete, OpImportGltf INPUT_GLB, MakeDirs TEXTURE_DIR]
          @ concat (map (\<lambda>(mt, color).
              [CreateSimpleTexture 2048 2048 color (mt @ ''_basecolor''),
               CreateNormalMap 2048 2048 (mt @ ''_normal'') 0.3,
               CreateRoughnessTexture 2048 2048 (mt @ ''_roughness'')
                 (the (map_of ROUGHNESS mt)) 0.1])
             COLORS)
          @ map (\<lambda>(mt, color). CreatePbrMaterial mt) COLORS"
    unfolding before_def
    by (simp add: calls_of_texture_events calls_of_material_events import_events_def
        del: map_map)
  have 3: "calls_of loop = []"
    unfolding loop_def by (simp add: calls_of_assign_materials)
  have 4: "calls_of after = [OpSelectAll, OpExportGltf (abspath env OUTPUT_GLB)]"
    by (simp add: after_def export_events_def)
  have 5: "scene (snd (main env w))
          = fst (assign_materials mats (imported_objects env) (imported_store env, []))"
    using run by simp
  have 6: "fst (main env w) = Inr (Some (abspath env OUTPUT_GLB))"
    using run by simp
  show ?thesis
    by (rule exI[of _ before], rule exI[of _ loop], rule exI[of _ after], rule exI[of _ mats])
      (intro conjI 1 2 3 4 5 6 mats COLORS_keys loop_def)
qed

theorem pipeline_order_witness:
  "\<exists>before loop after.
      trace (snd (main sample_env empty_world)) = before @ loop @ after
      \<and> calls_of before =
          [OpSelectAll, OpDelete, OpImportGltf ''assets/motherandbaby3dmodel.glb'',
           MakeDirs ''textures_pbr'',
           CreateSimpleTexture 2048 2048 (0.784, 0.2, 0.227) ''saree_basecolor'',
           CreateNormalMap 2048 2048 ''saree_normal'' 0.3,
           CreateRoughnessTexture 2048 2048 ''saree_roughness'' 0.6 0.1,
           CreateSimpleTexture 2048 2048 (0.051, 0.051, 0.051) ''hair_basecolor'',
           CreateNormalMap 2048 2048 ''hair_normal'' 0.3,
           CreateRoughnessTexture 2048 2048 ''hair_roughness'' 0.25 0.1,
           CreateSimpleTexture 2048 2048 (0.902, 0.702, 0.541) ''mother_skin_basecolor'',
           CreateNormalMap 2048 2048 ''mother_skin_normal'' 0.3,
           CreateRoughnessTexture 2048 2048 ''mother_skin_roughness'' 0.45 0.1,
           CreateSimpleTexture 2048 2048 (0.941, 0.784, 0.639) ''baby_skin_basecolor'',
           CreateNormalMap 2048 2048 ''baby_skin_normal'' 0.3,
           CreateRoughnessTexture 2048 2048 ''baby_skin_roughness'' 0.35 0.1,
           CreateSimpleTexture 2048 2048 (0.1, 0.1, 0.1) ''baby_hair_basecolor'',
           CreateNormalMap 2048 2048 ''baby_hair_normal'' 0.3,
           CreateRoughnessTexture 2048 2048 ''baby_hair_roughness'' 0.5 0.1,
           CreateSimpleTexture 2048 2048 (0.965, 0.843, 0.690) ''base_basecolor'',
           CreateNormalMap 2048 2048 ''base_normal'' 0.3,
           CreateRoughnessTexture 2048 2048 ''base_roughness'' 0.7 0.1,
           CreatePbrMaterial ''saree'', CreatePbrMaterial ''hair'',
           CreatePbrMaterial ''mother_skin'', CreatePbrMaterial ''baby_skin'',
           CreatePbrMaterial ''baby_hair'', CreatePbrMaterial ''base'']
      \<and> calls_of loop = []
      \<and> calls_of after
          = [OpSelectAll, OpExportGltf ''/work/assets/motherandbaby3dmodel_pbr.glb'']"
proof -
  have h1: "path_exists sample_env INPUT_GLB" by (simp add: sample_env_def)
  have h2: "\<forall>tr c. raises sample_env tr c = None" by (simp add: sample_env_def)
  obtain before loop after where p:
      "trace (snd (main sample_env empty_world)) = trace empty_world @ before @ loop @ after"
      "calls_of before =
          [OpSelectAll, OpDelete, OpImportGltf INPUT_GLB, MakeDirs TEXTURE_DIR]
          @ concat (map (\<lambda>(mt, color).
              [CreateSimpleTexture 2048 2048 color (mt @ ''_basecolor''),
               CreateNormalMap 2048 2048 (mt @ ''_normal'') 0.3,
               CreateRoughnessTexture 2048 2048 (mt @ ''_roughness'')
                 (the (map_of ROUGHNESS mt)) 0.1])
             COLORS)
          @ map (\<lambda>(mt, color). CreatePbrMaterial mt) COLORS"
      "calls_of loop = []"
      "calls_of after = [OpSelectAll, OpExportGltf (abspath sample_env OUTPUT_GLB)]"
    using pipeline_order[OF h1 h2, of empty_world] by blast
  have a: "trace (snd (main sample_env empty_world)) = before @ loop @ after"
    using p(1) by (simp add: empty_world_def)
  have c: "calls_of after
          = [OpSelectAll, OpExportGltf ''/work/assets/motherandbaby3dmodel_pbr.glb'']"
    using p(4) by (simp add: sample_env_def OUTPUT_GLB_def)
  have b: "calls_of before = [OpSelectAll, OpDelete,
           OpImportGltf ''assets/motherandbaby3dmodel.glb'',
           MakeDirs ''textures_pbr'',
           CreateSimpleTexture 2048 2048 (0.784, 0.2, 0.227) ''saree_basecolor'',
           CreateNormalMap 2048 2048 ''saree_normal'' 0.3,
           CreateRoughnessTexture 2048 2048 ''saree_roughness'' 0.6 0.1,
           CreateSimpleTexture 2048 2048 (0.051, 0.051, 0.051) ''hair_basecolor'',
           CreateNormalMap 2048 2048 ''hair_normal'' 0.3,
           CreateRoughnessTexture 2048 2048 ''hair_roughness'' 0.25 0.1,
           CreateSimpleTexture 2048 2048 (0.902, 0.702, 0.541) ''mother_skin_basecolor'',
           CreateNormalMap 2048 2048 ''mother_skin_normal'' 0.3,
           CreateRoughnessTexture 2048 2048 ''mother_skin_roughness'' 0.45 0.1,
           CreateSimpleTexture 2048 2048 (0.941, 0.784, 0.639) ''baby_skin_basecolor'',
           CreateNormalMap 2048 2048 ''baby_skin_normal'' 0.3,
           CreateRoughnessTexture 2048 2048 ''baby_skin_roughness'' 0.35 0.1,
           CreateSimpleTexture 2048 2048 (0.1, 0.1, 0.1) ''baby_hair_basecolor'',
           CreateNormalMap 2048 2048 ''baby_hair_normal'' 0.3,
           CreateRoughnessTexture 2048 2048 ''baby_hair_roughness'' 0.5 0.1,
           CreateSimpleTexture 2048 2048 (0.965, 0.843, 0.690) ''base_basecolor'',
           CreateNormalMap 2048 2048 ''base_normal'' 0.3,
           CreateRoughnessTexture 2048 2048 ''base_roughness'' 0.7 0.1,
           CreatePbrMaterial ''saree'', CreatePbrMaterial ''hair'',
           CreatePbrMaterial ''mother_skin'', CreatePbrMaterial ''baby_skin'',
           CreatePbrMaterial ''baby_hair'', CreatePbrMaterial ''base'']"
    unfolding p(2) by (simp add: COLORS_def ROUGHNESS_def INPUT_GLB_def TEXTURE_DIR_def)
  show ?thesis
    by (rule exI[of _ before], rule exI[of _ loop], rule exI[of _ after])
      (intro conjI a b c p(3))
qed

end
